theory Spec2Isabelle
  imports Complex_Main "HOL-Library.Multiset"
begin

section \<open>Random draws and the shuffle helper (src/utils/helpers.js)\<close>

text \<open>
  \<^verbatim>\<open>Math.random()\<close> is the only source of nondeterminism. It is modelled as a fixed
  stream of draws: \<open>rnd k\<close> is the value returned by the \<open>k\<close>-th call, and every function
  that draws takes the index of the next unread draw and returns the index after its last
  draw. Each draw is a double in the half-open interval from 0 to 1, hence a rational;
  \<open>valid_rng\<close> states that contract.
\<close>

type_synonym rng = "nat \<Rightarrow> rat"

definition valid_rng :: "rng \<Rightarrow> bool" where
  "valid_rng rnd \<longleftrightarrow> (\<forall>k. 0 \<le> rnd k \<and> rnd k < 1)"

text \<open>
  \<^verbatim>\<open>Math.floor(Math.random() * (i + 1))\<close> with the \<open>k\<close>-th draw. The product is taken
  exactly; the proofs use only that the result lies between 0 and \<open>i\<close>.
\<close>

definition random_index :: "rng \<Rightarrow> nat \<Rightarrow> nat \<Rightarrow> nat" where
  "random_index rnd k i = nat \<lfloor>rnd k * of_nat (i + 1)\<rfloor>"

text \<open>
  \<^verbatim>\<open>[shuffled[i], shuffled[j]] = [shuffled[j], shuffled[i]]\<close>: both cells are read
  first, then cell \<open>i\<close> and cell \<open>j\<close> are written in that order.
\<close>

definition swap :: "'a list \<Rightarrow> nat \<Rightarrow> nat \<Rightarrow> 'a list" where
  "swap xs i j = (xs[i := xs ! j])[j := xs ! i]"

text \<open>
  The loop \<^verbatim>\<open>for (let i = shuffled.length - 1; i > 0; i--)\<close>; the last argument is the
  current \<open>i\<close>.
\<close>

fun shuffle_loop :: "rng \<Rightarrow> nat \<Rightarrow> 'a list \<Rightarrow> nat \<Rightarrow> 'a list \<times> nat" where
  "shuffle_loop rnd k shuffled 0 = (shuffled, k)"
| "shuffle_loop rnd k shuffled (Suc n) =
     shuffle_loop rnd (Suc k) (swap shuffled (Suc n) (random_index rnd k (Suc n))) n"

text \<open>
  \<open>shuffleArray\<close> on values: the copy \<^verbatim>\<open>[...array]\<close> is the list itself. For the empty
  array the loop starts at \<open>-1\<close> and does not run; \<open>length array - 1\<close> is \<open>0\<close> there.
\<close>

definition shuffleArray :: "rng \<Rightarrow> nat \<Rightarrow> 'a list \<Rightarrow> 'a list \<times> nat" where
  "shuffleArray rnd k array = shuffle_loop rnd k array (length array - 1)"

subsection \<open>The same helper over a store of arrays\<close>

text \<open>
  JavaScript arrays are references. To state that the argument is not written, arrays live
  in a store (a list of arrays, the address being the position), \<^verbatim>\<open>[...array]\<close>
  allocates a new cell holding a copy, and the loop writes through the new address only.
\<close>

type_synonym 'a store = "'a list list"

fun shuffle_loop_store ::
  "rng \<Rightarrow> nat \<Rightarrow> 'a store \<Rightarrow> nat \<Rightarrow> nat \<Rightarrow> 'a store \<times> nat" where
  "shuffle_loop_store rnd k h s 0 = (h, k)"
| "shuffle_loop_store rnd k h s (Suc n) =
     shuffle_loop_store rnd (Suc k)
       (h[s := swap (h ! s) (Suc n) (random_index rnd k (Suc n))]) s n"

text \<open>Returns the new store, the address of the shuffled copy and the next draw index.\<close>

definition shuffleArray_store ::
  "rng \<Rightarrow> nat \<Rightarrow> 'a store \<Rightarrow> nat \<Rightarrow> 'a store \<times> nat \<times> nat" where
  "shuffleArray_store rnd k h array =
     (let shuffled = length h;
          h1 = h @ [h ! array];
          (h2, k') = shuffle_loop_store rnd k h1 shuffled (length (h1 ! shuffled) - 1)
      in (h2, shuffled, k'))"

section \<open>The quiz data model\<close>

text \<open>
  A question as the question source supplies it and as the response returns it:
  \<^verbatim>\<open>{id, question, options[], answerIndex}\<close>. Strings are byte strings (the UTF-8
  encoding of the JavaScript string); \<open>answerIndex\<close> is a JSON number, taken integral.
\<close>

record question_entry =
  id_q :: string
  question :: string
  options :: "string list"
  answerIndex :: int

text \<open>
  An object with the three section properties, used both for what the question source
  returns and for the \<^verbatim>\<open>questions\<close> object of the response.
\<close>

record 'a sections =
  quantitative :: 'a
  logical :: 'a
  verbal :: 'a

text \<open>
  The value of one section property of a parsed document: falsy or missing, a truthy value
  that is not an array (a string, a number, an object), or an array of questions. The
  entries of an array are question objects of the shape above. On an array with an entry
  that is null or has no \<open>options\<close> array the handler throws in \<^verbatim>\<open>filter\<close> or
  \<^verbatim>\<open>map\<close> and answers 500; such arrays are not values of this type, and the
  theorems about the response to a bank supplied by the model take the ok answer as a
  hypothesis.
\<close>

datatype section_value = Falsy | NotAnArray | Questions "question_entry list"

text \<open>An element of the in-memory list \<^verbatim>\<open>userAttempts\<close>; \<open>timestamp\<close> in milliseconds.\<close>

record attempt =
  userEmail :: string
  classLevel :: "string option"
  questionIds :: "string list"
  timestamp :: int

datatype js_error = TypeError | SyntaxError | FetchError

section \<open>The question source (src/services/geminiService.js)\<close>

text \<open>The constant \<open>fallbackQuestions\<close>, section by section.\<close>

definition fallback_quantitative :: "question_entry list" where
  "fallback_quantitative =
   [\<lparr>id_q = ''q1'',
      question = (''A shopkeeper sells an item at 20% profit. If the cost price is '' @ [CHR 0xE2, CHR 0x82, CHR 0xB9] @ ''500, what is the selling price?''),
      options =
         [([CHR 0xE2, CHR 0x82, CHR 0xB9] @ ''600''),
          ([CHR 0xE2, CHR 0x82, CHR 0xB9] @ ''550''),
          ([CHR 0xE2, CHR 0x82, CHR 0xB9] @ ''625''),
          ([CHR 0xE2, CHR 0x82, CHR 0xB9] @ ''580'')],
      answerIndex = 0\<rparr>,
    \<lparr>id_q = ''q2'',
      question = ''If 3x + 5 = 20, what is the value of x?'',
      options =
         [''3'',
          ''4'',
          ''5'',
          ''6''],
      answerIndex = 2\<rparr>,
    \<lparr>id_q = ''q3'',
      question = ''A train 150m long passes a pole in 10 seconds. What is the speed of the train in km/h?'',
      options =
         [''45 km/h'',
          ''54 km/h'',
          ''60 km/h'',
          ''72 km/h''],
      answerIndex = 1\<rparr>,
    \<lparr>id_q = ''q4'',
      question = (''If the area of a circle is 154 cm'' @ [CHR 0xC2, CHR 0xB2] @ '', what is its radius? (Take '' @ [CHR 0xCF, CHR 0x80] @ '' = 22/7)''),
      options =
         [''5 cm'',
          ''6 cm'',
          ''7 cm'',
          ''8 cm''],
      answerIndex = 2\<rparr>,
    \<lparr>id_q = ''q5'',
      question = ''A number when divided by 7 gives a quotient of 12 and remainder 5. What is the number?'',
      options =
         [''84'',
          ''89'',
          ''91'',
          ''96''],
      answerIndex = 1\<rparr>,
    \<lparr>id_q = ''q6'',
      question = ''If 25% of a number is 75, what is 40% of that number?'',
      options =
         [''100'',
          ''120'',
          ''150'',
          ''180''],
      answerIndex = 1\<rparr>,
    \<lparr>id_q = ''q7'',
      question = ''The sum of three consecutive even numbers is 54. What is the largest number?'',
      options =
         [''16'',
          ''18'',
          ''20'',
          ''22''],
      answerIndex = 2\<rparr>,
    \<lparr>id_q = ''q8'',
      question = ''If a person walks at 6 km/h, how long will it take to cover 4.5 km?'',
      options =
         [''40 minutes'',
          ''45 minutes'',
          ''50 minutes'',
          ''55 minutes''],
      answerIndex = 1\<rparr>,
    \<lparr>id_q = ''q9'',
      question = ''A rectangle has length 12 cm and width 8 cm. What is the area of a square with the same perimeter?'',
      options =
         [(''64 cm'' @ [CHR 0xC2, CHR 0xB2]),
          (''81 cm'' @ [CHR 0xC2, CHR 0xB2]),
          (''100 cm'' @ [CHR 0xC2, CHR 0xB2]),
          (''121 cm'' @ [CHR 0xC2, CHR 0xB2])],
      answerIndex = 2\<rparr>,
    \<lparr>id_q = ''q10'',
      question = (''If 2^5 '' @ [CHR 0xC3, CHR 0x97] @ '' 3^2 = ?''),
      options =
         [''144'',
          ''192'',
          ''288'',
          ''324''],
      answerIndex = 2\<rparr>]"

definition fallback_logical :: "question_entry list" where
  "fallback_logical =
   [\<lparr>id_q = ''l1'',
      question = ''In a code, CAT is written as 3120. How is DOG written in that code?'',
      options =
         [''4157'',
          ''4156'',
          ''4158'',
          ''4159''],
      answerIndex = 0\<rparr>,
    \<lparr>id_q = ''l2'',
      question = ''If all roses are flowers and some flowers are red, which statement must be true?'',
      options =
         [''All roses are red'',
          ''Some roses are red'',
          ''No roses are red'',
          ''Cannot be determined''],
      answerIndex = 3\<rparr>,
    \<lparr>id_q = ''l3'',
      question = ''What comes next: 2, 6, 12, 20, 30, ?'',
      options =
         [''40'',
          ''42'',
          ''44'',
          ''46''],
      answerIndex = 1\<rparr>,
    \<lparr>id_q = ''l4'',
      question = ''If Monday is the first day, what day will it be after 25 days?'',
      options =
         [''Thursday'',
          ''Friday'',
          ''Saturday'',
          ''Sunday''],
      answerIndex = 1\<rparr>,
    \<lparr>id_q = ''l5'',
      question = ''A is taller than B, C is shorter than A. Who is the tallest?'',
      options =
         [''A'',
          ''B'',
          ''C'',
          ''Cannot be determined''],
      answerIndex = 0\<rparr>,
    \<lparr>id_q = ''l6'',
      question = ''In a row, Priya is 15th from the left and 20th from the right. How many people are in the row?'',
      options =
         [''33'',
          ''34'',
          ''35'',
          ''36''],
      answerIndex = 1\<rparr>,
    \<lparr>id_q = ''l7'',
      question = (''If 5 '' @ [CHR 0xC3, CHR 0x97] @ '' 3 = 15, 7 '' @ [CHR 0xC3, CHR 0x97] @ '' 4 = 28, then 9 '' @ [CHR 0xC3, CHR 0x97] @ '' 6 = ?''),
      options =
         [''45'',
          ''54'',
          ''63'',
          ''72''],
      answerIndex = 1\<rparr>,
    \<lparr>id_q = ''l8'',
      question = ''Complete the series: Z, Y, X, W, V, ?'',
      options =
         [''U'',
          ''T'',
          ''S'',
          ''R''],
      answerIndex = 0\<rparr>,
    \<lparr>id_q = ''l9'',
      question = ''If all doctors are professionals and some professionals are teachers, which is true?'',
      options =
         [''All doctors are teachers'',
          ''Some doctors are teachers'',
          ''No doctors are teachers'',
          ''Cannot be determined''],
      answerIndex = 3\<rparr>,
    \<lparr>id_q = ''l10'',
      question = ''Find the odd one out: 8, 27, 64, 100, 125'',
      options =
         [''8'',
          ''27'',
          ''100'',
          ''125''],
      answerIndex = 2\<rparr>]"

definition fallback_verbal :: "question_entry list" where
  "fallback_verbal =
   [\<lparr>id_q = ''v1'',
      question = (''Choose the correct synonym for '' @ [CHR 0x27] @ ''Benevolent'' @ [CHR 0x27] @ '':''),
      options =
         [''Cruel'',
          ''Kind'',
          ''Strict'',
          ''Lazy''],
      answerIndex = 1\<rparr>,
    \<lparr>id_q = ''v2'',
      question = ''Fill in the blank: She is the _____ student in the class.'',
      options =
         [''good'',
          ''better'',
          ''best'',
          ''well''],
      answerIndex = 2\<rparr>,
    \<lparr>id_q = ''v3'',
      question = (''Identify the error: '' @ [CHR 0x27] @ ''Neither of the students were present.'' @ [CHR 0x27]),
      options =
         [''No error'',
          ''were should be was'',
          ''students should be student'',
          ''present should be presence''],
      answerIndex = 1\<rparr>,
    \<lparr>id_q = ''v4'',
      question = (''Choose the correct meaning of '' @ [CHR 0x27] @ ''Procrastinate'' @ [CHR 0x27] @ '':''),
      options =
         [''To do immediately'',
          ''To delay or postpone'',
          ''To complete quickly'',
          ''To organize''],
      answerIndex = 1\<rparr>,
    \<lparr>id_q = ''v5'',
      question = ''Select the correctly spelled word:'',
      options =
         [''Accomodate'',
          ''Accommodate'',
          ''Acommodate'',
          ''Acomodate''],
      answerIndex = 1\<rparr>,
    \<lparr>id_q = ''v6'',
      question = (''Choose the appropriate preposition: '' @ [CHR 0x27] @ ''She is allergic _____ peanuts.'' @ [CHR 0x27]),
      options =
         [''to'',
          ''for'',
          ''with'',
          ''at''],
      answerIndex = 0\<rparr>,
    \<lparr>id_q = ''v7'',
      question = (''What is the antonym of '' @ [CHR 0x27] @ ''Abundant'' @ [CHR 0x27] @ ''?''),
      options =
         [''Plentiful'',
          ''Scarce'',
          ''Many'',
          ''Rich''],
      answerIndex = 1\<rparr>,
    \<lparr>id_q = ''v8'',
      question = (''Identify the figure of speech: '' @ [CHR 0x27] @ ''The wind whispered through the trees.'' @ [CHR 0x27]),
      options =
         [''Simile'',
          ''Metaphor'',
          ''Personification'',
          ''Alliteration''],
      answerIndex = 2\<rparr>,
    \<lparr>id_q = ''v9'',
      question = (''Choose the correct form: '' @ [CHR 0x27] @ ''I wish I _____ harder for the exam.'' @ [CHR 0x27]),
      options =
         [''study'',
          ''studied'',
          ''had studied'',
          ''will study''],
      answerIndex = 2\<rparr>,
    \<lparr>id_q = ''v10'',
      question = (''What does '' @ [CHR 0x27] @ ''Eloquent'' @ [CHR 0x27] @ '' mean?''),
      options =
         [''Unable to speak'',
          ''Fluent and persuasive in speaking'',
          ''Quiet and shy'',
          ''Rude and impolite''],
      answerIndex = 1\<rparr>]"

definition fallbackQuestions :: "section_value sections" where
  "fallbackQuestions =
     \<lparr>quantitative = Questions fallback_quantitative,
      logical = Questions fallback_logical,
      verbal = Questions fallback_verbal\<rparr>"

text \<open>
  What the outside world contributes to one call of \<open>generateAptitudeQuestions\<close>:
  the API key of the process environment, the outcome of \<^verbatim>\<open>fetch\<close> for the prompt of
  each difficulty level, and the built-in \<^verbatim>\<open>JSON.parse\<close>.
\<close>

datatype level = Class10 | Class12 | General

text \<open>
  The body of the HTTP response: \<^verbatim>\<open>res.json()\<close> throws, or yields data of which the
  code reads \<^verbatim>\<open>candidates[0].content.parts[0].text\<close> and
  \<^verbatim>\<open>candidates[0].output_text\<close> (\<open>None\<close> when the optional chain gives undefined).
\<close>

datatype response_body = BodyNotJson | Data "string option" "string option"

datatype fetch_result = FetchThrows | HttpResponse bool response_body

text \<open>
  \<^verbatim>\<open>JSON.parse\<close> throws, returns \<^verbatim>\<open>null\<close>, or returns a value whose three section
  properties are read (a value without them has all three \<open>Falsy\<close>).
\<close>

datatype parse_result = ParseThrows | ParsedNull | Parsed "section_value sections"

record gemini_env =
  GEMINI_API_KEY :: "string option"
  fetch :: "level \<Rightarrow> fetch_result"
  JSON_parse :: "string \<Rightarrow> parse_result"

text \<open>The \<^verbatim>\<open>if / else if / else\<close> chain on \<open>classLevel\<close> that selects the prompt.\<close>

definition level_of :: "string \<Rightarrow> level" where
  "level_of class_level =
     (if class_level = ''10th'' then Class10
      else if class_level = ''12th'' then Class12
      else General)"

text \<open>Truthiness of an optional string: undefined and the empty string are falsy.\<close>

definition truthy :: "string option \<Rightarrow> bool" where
  "truthy v = (case v of None \<Rightarrow> False | Some s \<Rightarrow> s \<noteq> [])"

text \<open>\<^verbatim>\<open>a || b\<close> on optional strings.\<close>

definition or_else :: "string option \<Rightarrow> string option \<Rightarrow> string option" where
  "or_else a b = (if truthy a then a else b)"

definition fence_json :: string where
  "fence_json = [CHR 0x60, CHR 0x60, CHR 0x60] @ ''json''"

definition fence :: string where
  "fence = [CHR 0x60, CHR 0x60, CHR 0x60]"

text \<open>
  \<^verbatim>\<open>text.replace(/```json|```/g, "")\<close>: at each position the first alternative is
  tried before the second, and matching resumes after a removed match.
\<close>

function strip_fences :: "string \<Rightarrow> string" where
  "strip_fences s =
     (if s = [] then []
      else if take 7 s = fence_json then strip_fences (drop 7 s)
      else if take 3 s = fence then strip_fences (drop 3 s)
      else hd s # strip_fences (tl s))"
  by pat_completeness auto
termination
  by (relation "measure length") auto

declare strip_fences.simps [simp del]

text \<open>
  \<^verbatim>\<open>trim()\<close> on byte strings: the white space removed is tab, line feed, vertical tab,
  form feed, carriage return and space.
\<close>

definition is_space :: "char \<Rightarrow> bool" where
  "is_space c \<longleftrightarrow> c \<in> set [CHR 0x09, CHR 0x0A, CHR 0x0B, CHR 0x0C, CHR 0x0D, CHR 0x20]"

definition trim :: "string \<Rightarrow> string" where
  "trim s = rev (dropWhile is_space (rev (dropWhile is_space s)))"

text \<open>
  The part of \<open>generateAptitudeQuestions\<close> inside \<^verbatim>\<open>try\<close>: \<open>Inl\<close> is a thrown
  exception, which the \<^verbatim>\<open>catch\<close> turns into the fallback set.
\<close>

definition call_gemini ::
  "gemini_env \<Rightarrow> level \<Rightarrow> js_error + section_value sections" where
  "call_gemini env lv =
     (case fetch env lv of
        FetchThrows \<Rightarrow> Inl FetchError
      | HttpResponse ok body \<Rightarrow>
          if \<not> ok then Inr fallbackQuestions
          else (case body of
                  BodyNotJson \<Rightarrow> Inl SyntaxError
                | Data parts_text output_text \<Rightarrow>
                    (case or_else parts_text output_text of
                       None \<Rightarrow> Inr fallbackQuestions
                     | Some text \<Rightarrow>
                         if text = [] then Inr fallbackQuestions
                         else (case JSON_parse env (trim (strip_fences text)) of
                                 ParseThrows \<Rightarrow> Inl SyntaxError
                               | ParsedNull \<Rightarrow> Inl TypeError
                               | Parsed parsed \<Rightarrow>
                                   if quantitative parsed = Falsy \<or> logical parsed = Falsy
                                      \<or> verbal parsed = Falsy
                                   then Inr fallbackQuestions
                                   else Inr parsed))))"

definition generateAptitudeQuestions ::
  "gemini_env \<Rightarrow> string \<Rightarrow> section_value sections" where
  "generateAptitudeQuestions env class_level =
     (if \<not> truthy (GEMINI_API_KEY env) then fallbackQuestions
      else (case call_gemini env (level_of class_level) of
              Inl err \<Rightarrow> fallbackQuestions
            | Inr result \<Rightarrow> result))"

section \<open>The quiz controller\<close>

text \<open>\<^verbatim>\<open>xs[i]\<close> for a number \<open>i\<close>: undefined (\<open>None\<close>) outside the array.\<close>

definition element_at :: "'a list \<Rightarrow> int \<Rightarrow> 'a option" where
  "element_at xs i = (if 0 \<le> i \<and> i < int (length xs) then Some (xs ! nat i) else None)"

text \<open>
  \<^verbatim>\<open>xs.indexOf(v)\<close> on an array of strings: the first position holding \<open>v\<close>, or
  \<open>-1\<close>; undefined is never found among strings.
\<close>

fun index_from :: "string list \<Rightarrow> string \<Rightarrow> int \<Rightarrow> int" where
  "index_from [] v i = - 1"
| "index_from (x # xs) v i = (if x = v then i else index_from xs v (i + 1))"

definition indexOf :: "string list \<Rightarrow> string option \<Rightarrow> int" where
  "indexOf xs v = (case v of None \<Rightarrow> - 1 | Some s \<Rightarrow> index_from xs s 0)"

text \<open>The body of the callback of \<^verbatim>\<open>shuffled.map\<close> in \<open>processSection\<close>.\<close>

definition shuffle_options :: "rng \<Rightarrow> nat \<Rightarrow> question_entry \<Rightarrow> question_entry \<times> nat" where
  "shuffle_options rnd k q =
     (let correctAnswer = element_at (options q) (answerIndex q);
          (shuffledOptions, k') = shuffleArray rnd k (options q)
      in (q\<lparr>options := shuffledOptions,
             answerIndex := indexOf shuffledOptions correctAnswer\<rparr>, k'))"

text \<open>\<^verbatim>\<open>shuffled.map(...)\<close>, left to right, threading the draws.\<close>

fun map_shuffle_options ::
  "rng \<Rightarrow> nat \<Rightarrow> question_entry list \<Rightarrow> question_entry list \<times> nat" where
  "map_shuffle_options rnd k [] = ([], k)"
| "map_shuffle_options rnd k (q # qs) =
     (let (q', k1) = shuffle_options rnd k q;
          (rest, k2) = map_shuffle_options rnd k1 qs
      in (q' # rest, k2))"

text \<open>
  The variable \<open>availableQuestions\<close> of \<open>processSection\<close> after the
  \<^verbatim>\<open>if (availableQuestions.length < 10)\<close>.
\<close>

definition availableQuestions :: "question_entry list \<Rightarrow> string list \<Rightarrow> question_entry list" where
  "availableQuestions sectionQuestions usedIds =
     (let available = filter (\<lambda>q. id_q q \<notin> set usedIds) sectionQuestions
      in if length available < 10 then sectionQuestions else available)"

text \<open>
  The variable \<open>shuffled\<close> of \<open>processSection\<close>: the first ten of the shuffled
  candidates, \<^verbatim>\<open>shuffleArray(availableQuestions).slice(0, 10)\<close>.
\<close>

definition selected ::
  "rng \<Rightarrow> nat \<Rightarrow> question_entry list \<Rightarrow> string list \<Rightarrow> question_entry list" where
  "selected rnd k qs usedIds = take 10 (fst (shuffleArray rnd k (availableQuestions qs usedIds)))"

text \<open>
  \<open>processSection\<close>. Calling \<^verbatim>\<open>.filter\<close> on a value that is not an array throws a
  TypeError.
\<close>

definition processSection ::
  "rng \<Rightarrow> nat \<Rightarrow> section_value \<Rightarrow> string list \<Rightarrow> js_error + question_entry list \<times> nat" where
  "processSection rnd k sectionQuestions usedIds =
     (case sectionQuestions of
        Questions qs \<Rightarrow>
          (let (all_shuffled, k1) = shuffleArray rnd k (availableQuestions qs usedIds);
               shuffled = take 10 all_shuffled
           in Inr (map_shuffle_options rnd k1 shuffled))
      | _ \<Rightarrow> Inl TypeError)"

text \<open>
  The recent attempts of one user and the ids they used; \<open>now\<close> is the reading of
  \<^verbatim>\<open>Date.now()\<close> on line 53.
\<close>

definition recentAttempts :: "attempt list \<Rightarrow> string \<Rightarrow> int \<Rightarrow> attempt list" where
  "recentAttempts userAttempts email now =
     filter (\<lambda>a. userEmail a = email \<and> timestamp a \<ge> now - 24 * 60 * 60 * 1000) userAttempts"

definition usedQuestionIds :: "attempt list \<Rightarrow> string \<Rightarrow> int \<Rightarrow> string list" where
  "usedQuestionIds userAttempts email now =
     concat (map questionIds (recentAttempts userAttempts email now))"

text \<open>
  What the outside world contributes to one request: the question source, the draws and the
  index of the next one, and the three readings of the clock (for the lookup of recent
  attempts, for the timestamp of the new attempt, for the clean-up).
\<close>

record world =
  gemini :: gemini_env
  random :: rng
  next_draw :: nat
  now_lookup :: int
  now_record :: int
  now_prune :: int

datatype response =
    Status400
  | Status500
  | Ok200 (questions: "question_entry list sections")

text \<open>\<^verbatim>\<open>classLevel || "other"\<close>.\<close>

definition level_or_other :: "string option \<Rightarrow> string" where
  "level_or_other class_level = (if truthy class_level then the class_level else ''other'')"

text \<open>
  \<open>generateQuestions\<close>: the response and the new contents of \<open>userAttempts\<close>. An
  exception thrown by \<open>processSection\<close> is caught by the handler (status 500) before the
  attempt is stored.
\<close>

definition generateQuestions ::
  "world \<Rightarrow> attempt list \<Rightarrow> string option \<Rightarrow> string option \<Rightarrow> response \<times> attempt list" where
  "generateQuestions w userAttempts class_level email =
     (if \<not> truthy email then (Status400, userAttempts)
      else
        let e = the email;
            used = usedQuestionIds userAttempts e (now_lookup w);
            allQuestions = generateAptitudeQuestions (gemini w) (level_or_other class_level)
        in case processSection (random w) (next_draw w) (quantitative allQuestions) used of
             Inl err \<Rightarrow> (Status500, userAttempts)
           | Inr (qs, k1) \<Rightarrow>
         (case processSection (random w) k1 (logical allQuestions) used of
             Inl err \<Rightarrow> (Status500, userAttempts)
           | Inr (ls, k2) \<Rightarrow>
         (case processSection (random w) k2 (verbal allQuestions) used of
             Inl err \<Rightarrow> (Status500, userAttempts)
           | Inr (vs, k3) \<Rightarrow>
               let allQuestionIds = map id_q qs @ map id_q ls @ map id_q vs;
                   pushed = userAttempts @
                     [\<lparr>userEmail = e, classLevel = class_level,
                       questionIds = allQuestionIds, timestamp = now_record w\<rparr>];
                   validAttempts =
                     filter (\<lambda>a. timestamp a \<ge> now_prune w - 7 * 24 * 60 * 60 * 1000) pushed
               in (Ok200 \<lparr>quantitative = qs, logical = ls, verbal = vs\<rparr>, validAttempts))))"


text \<open>\<open>resetQuestionPool\<close>: the response is ok exactly when an email was given.\<close>

definition resetQuestionPool :: "attempt list \<Rightarrow> string option \<Rightarrow> bool \<times> attempt list" where
  "resetQuestionPool userAttempts email =
     (if \<not> truthy email then (False, userAttempts)
      else (True, filter (\<lambda>a. userEmail a \<noteq> the email) userAttempts))"

section \<open>The composite score of the recommendation engine\<close>

text \<open>
  Modelled from the spec: the scorer of the Python engine (\<^verbatim>\<open>scorer.py\<close>) is not among
  the sources; only its README states the formula. The three weights are a configuration
  of their own.
\<close>

record weights =
  w_similarity :: rat
  w_aptitude :: rat
  w_interest :: rat

text \<open>Modelled from the spec: the fixed weights 0.6, 0.2 and 0.2.\<close>

definition default_weights :: weights where
  "default_weights = \<lparr>w_similarity = 6 / 10, w_aptitude = 2 / 10, w_interest = 2 / 10\<rparr>"

text \<open>Modelled from the spec: the weighted sum of the three sub-scores.\<close>

definition blend :: "weights \<Rightarrow> rat \<Rightarrow> rat \<Rightarrow> rat \<Rightarrow> rat" where
  "blend w similarity aptitude interest =
     w_similarity w * similarity + w_aptitude w * aptitude + w_interest w * interest"

text \<open>
  Modelled from the spec: the composite score, the blend with the fixed weights scaled from
  the range 0 to 1 of the sub-scores to the display range 0 to 10.
\<close>

definition composite :: "rat \<Rightarrow> rat \<Rightarrow> rat \<Rightarrow> rat" where
  "composite similarity aptitude interest =
     10 * blend default_weights similarity aptitude interest"

section \<open>Example inputs\<close>

text \<open>A stream of draws that cycles through 0, 1/4, 1/2 and 3/4.\<close>

definition example_rng :: rng where
  "example_rng k = of_nat (k mod 4) / 4"

definition example_question :: question_entry where
  "example_question =
     \<lparr>id_q = ''x1'', question = ''2 + 2 = ?'',
      options = [''3'', ''4'', ''5''], answerIndex = 1\<rparr>"

text \<open>A question source that answers with one question per section.\<close>

definition example_bank :: "section_value sections" where
  "example_bank =
     \<lparr>quantitative = Questions [example_question],
      logical = Questions [example_question\<lparr>id_q := ''y1''\<rparr>],
      verbal = Questions [example_question\<lparr>id_q := ''z1''\<rparr>]\<rparr>"

text \<open>The JSON text of \<open>example_bank\<close>.\<close>

definition example_json :: string where
  "example_json =
     ''{'' @ [CHR 0x22] @ ''quantitative'' @ [CHR 0x22] @ '':[{'' @ [CHR 0x22] @ ''id'' @ [CHR 0x22] @ '':'' @ [CHR 0x22] @ ''x1'' @ [CHR 0x22] @ '','' @ [CHR 0x22] @ ''question'' @ [CHR 0x22] @ '':'' @ [CHR 0x22] @ ''2 + 2 = '' @
     ''?'' @ [CHR 0x22] @ '','' @ [CHR 0x22] @ ''options'' @ [CHR 0x22] @ '':['' @ [CHR 0x22] @ ''3'' @ [CHR 0x22] @ '','' @ [CHR 0x22] @ ''4'' @ [CHR 0x22] @ '','' @ [CHR 0x22] @ ''5'' @ [CHR 0x22] @ ''],'' @ [CHR 0x22] @ ''answerIndex'' @ [CHR 0x22] @ '':1}],'' @ [CHR 0x22] @ ''lo'' @
     ''gical'' @ [CHR 0x22] @ '':[{'' @ [CHR 0x22] @ ''id'' @ [CHR 0x22] @ '':'' @ [CHR 0x22] @ ''y1'' @ [CHR 0x22] @ '','' @ [CHR 0x22] @ ''question'' @ [CHR 0x22] @ '':'' @ [CHR 0x22] @ ''2 + 2 = ?'' @ [CHR 0x22] @ '','' @ [CHR 0x22] @ ''optio'' @
     ''ns'' @ [CHR 0x22] @ '':['' @ [CHR 0x22] @ ''3'' @ [CHR 0x22] @ '','' @ [CHR 0x22] @ ''4'' @ [CHR 0x22] @ '','' @ [CHR 0x22] @ ''5'' @ [CHR 0x22] @ ''],'' @ [CHR 0x22] @ ''answerIndex'' @ [CHR 0x22] @ '':1}],'' @ [CHR 0x22] @ ''verbal'' @ [CHR 0x22] @ '':[{'' @ [CHR 0x22] @
     ''id'' @ [CHR 0x22] @ '':'' @ [CHR 0x22] @ ''z1'' @ [CHR 0x22] @ '','' @ [CHR 0x22] @ ''question'' @ [CHR 0x22] @ '':'' @ [CHR 0x22] @ ''2 + 2 = ?'' @ [CHR 0x22] @ '','' @ [CHR 0x22] @ ''options'' @ [CHR 0x22] @ '':['' @ [CHR 0x22] @ ''3'' @ [CHR 0x22] @ '','' @ [CHR 0x22] @
     ''4'' @ [CHR 0x22] @ '','' @ [CHR 0x22] @ ''5'' @ [CHR 0x22] @ ''],'' @ [CHR 0x22] @ ''answerIndex'' @ [CHR 0x22] @ '':1}]}''"

text \<open>The model answers with the JSON text inside a fenced block.\<close>

definition example_reply :: string where
  "example_reply = fence_json @ [CHR 0x0A] @ example_json @ [CHR 0x0A] @ fence @ [CHR 0x0A]"

text \<open>\<^verbatim>\<open>JSON.parse\<close> on the one text the example needs.\<close>

definition example_parse :: "string \<Rightarrow> parse_result" where
  "example_parse s = (if s = example_json then Parsed example_bank else ParseThrows)"

definition example_env :: gemini_env where
  "example_env =
     \<lparr>GEMINI_API_KEY = Some ''key'',
      fetch = (\<lambda>lv. HttpResponse True (Data (Some example_reply) None)),
      JSON_parse = example_parse\<rparr>"

text \<open>The same process without an API key.\<close>

definition offline_env :: gemini_env where
  "offline_env = example_env\<lparr>GEMINI_API_KEY := None\<rparr>"

definition example_world :: world where
  "example_world =
     \<lparr>gemini = example_env, random = example_rng, next_draw = 0,
      now_lookup = 1700000000000, now_record = 1700000000750, now_prune = 1700000000751\<rparr>"

definition offline_world :: world where
  "offline_world = example_world\<lparr>gemini := offline_env\<rparr>"

text \<open>
  The response to the first request of \<open>asha@example.org\<close> in \<open>example_world\<close>, and
  the attempt it stores.
\<close>

definition example_response :: "question_entry list sections" where
  "example_response =
     \<lparr>quantitative = [example_question\<lparr>options := [''4'', ''5'', ''3''], answerIndex := 0\<rparr>],
      logical =
        [example_question\<lparr>id_q := ''y1'', options := [''3'', ''5'', ''4''], answerIndex := 2\<rparr>],
      verbal =
        [example_question\<lparr>id_q := ''z1'', options := [''4'', ''5'', ''3''], answerIndex := 0\<rparr>]\<rparr>"

definition example_attempt :: attempt where
  "example_attempt =
     \<lparr>userEmail = ''asha@example.org'', classLevel = Some ''10th'',
      questionIds = [''x1'', ''y1'', ''z1''], timestamp = 1700000000750\<rparr>"

text \<open>An attempt of the same student made more than seven days before \<open>example_world\<close>.\<close>

definition old_attempt :: attempt where
  "old_attempt =
     \<lparr>userEmail = ''asha@example.org'', classLevel = Some ''10th'',
      questionIds = [''x1'', ''y1'', ''z1''], timestamp = 1699000000000\<rparr>"

text \<open>An attempt of another student.\<close>

definition other_attempt :: attempt where
  "other_attempt =
     \<lparr>userEmail = ''ravi@example.org'', classLevel = None,
      questionIds = [''x1''], timestamp = 1700000000100\<rparr>"

text \<open>
  A question source that answers with twenty quantitative questions and one question in
  each of the other sections, and two requests of the same student against it, one hour
  apart.
\<close>

definition wide_quantitative :: "question_entry list" where
  "wide_quantitative =
     [\<lparr>id_q = ''n1'', question = ''1 + 1 = ?'', options = [''1'', ''2'', ''3''], answerIndex = 1\<rparr>,
      \<lparr>id_q = ''n2'', question = ''2 + 1 = ?'', options = [''2'', ''3'', ''4''], answerIndex = 1\<rparr>,
      \<lparr>id_q = ''n3'', question = ''3 + 1 = ?'', options = [''3'', ''4'', ''5''], answerIndex = 1\<rparr>,
      \<lparr>id_q = ''n4'', question = ''4 + 1 = ?'', options = [''4'', ''5'', ''6''], answerIndex = 1\<rparr>,
      \<lparr>id_q = ''n5'', question = ''5 + 1 = ?'', options = [''5'', ''6'', ''7''], answerIndex = 1\<rparr>,
      \<lparr>id_q = ''n6'', question = ''6 + 1 = ?'', options = [''6'', ''7'', ''8''], answerIndex = 1\<rparr>,
      \<lparr>id_q = ''n7'', question = ''7 + 1 = ?'', options = [''7'', ''8'', ''9''], answerIndex = 1\<rparr>,
      \<lparr>id_q = ''n8'', question = ''8 + 1 = ?'', options = [''8'', ''9'', ''10''], answerIndex = 1\<rparr>,
      \<lparr>id_q = ''n9'', question = ''9 + 1 = ?'', options = [''9'', ''10'', ''11''], answerIndex = 1\<rparr>,
      \<lparr>id_q = ''n10'', question = ''10 + 1 = ?'', options = [''10'', ''11'', ''12''], answerIndex = 1\<rparr>,
      \<lparr>id_q = ''n11'', question = ''11 + 1 = ?'', options = [''11'', ''12'', ''13''], answerIndex = 1\<rparr>,
      \<lparr>id_q = ''n12'', question = ''12 + 1 = ?'', options = [''12'', ''13'', ''14''], answerIndex = 1\<rparr>,
      \<lparr>id_q = ''n13'', question = ''13 + 1 = ?'', options = [''13'', ''14'', ''15''], answerIndex = 1\<rparr>,
      \<lparr>id_q = ''n14'', question = ''14 + 1 = ?'', options = [''14'', ''15'', ''16''], answerIndex = 1\<rparr>,
      \<lparr>id_q = ''n15'', question = ''15 + 1 = ?'', options = [''15'', ''16'', ''17''], answerIndex = 1\<rparr>,
      \<lparr>id_q = ''n16'', question = ''16 + 1 = ?'', options = [''16'', ''17'', ''18''], answerIndex = 1\<rparr>,
      \<lparr>id_q = ''n17'', question = ''17 + 1 = ?'', options = [''17'', ''18'', ''19''], answerIndex = 1\<rparr>,
      \<lparr>id_q = ''n18'', question = ''18 + 1 = ?'', options = [''18'', ''19'', ''20''], answerIndex = 1\<rparr>,
      \<lparr>id_q = ''n19'', question = ''19 + 1 = ?'', options = [''19'', ''20'', ''21''], answerIndex = 1\<rparr>,
      \<lparr>id_q = ''n20'', question = ''20 + 1 = ?'', options = [''20'', ''21'', ''22''], answerIndex = 1\<rparr>]"

definition wide_bank :: "section_value sections" where
  "wide_bank = example_bank\<lparr>quantitative := Questions wide_quantitative\<rparr>"

text \<open>
  A second bank, equal to the first except that the id of its logical question is the id
  of a quantitative question.
\<close>

definition clash_bank :: "section_value sections" where
  "clash_bank = wide_bank\<lparr>logical := Questions [example_question\<lparr>id_q := ''n1''\<rparr>]\<rparr>"

text \<open>
  The JSON texts of these two banks: a common beginning up to the id of the logical
  question, that id, and a common end.
\<close>

definition wide_json_head :: string where
  "wide_json_head =
     ''{'' @ [CHR 0x22] @ ''quantitative'' @ [CHR 0x22] @ '':[{'' @ [CHR 0x22] @ ''id'' @ [CHR 0x22] @ '':'' @ [CHR 0x22] @ ''n1'' @ [CHR 0x22] @ '','' @ [CHR 0x22] @ ''question'' @ [CHR 0x22] @ '':'' @ [CHR 0x22] @
     ''1 + 1 = ?'' @ [CHR 0x22] @ '','' @ [CHR 0x22] @ ''options'' @ [CHR 0x22] @ '':['' @ [CHR 0x22] @ ''1'' @ [CHR 0x22] @ '','' @ [CHR 0x22] @ ''2'' @ [CHR 0x22] @ '','' @ [CHR 0x22] @ ''3'' @ [CHR 0x22] @ ''],'' @ [CHR 0x22] @ ''answ'' @
     ''erIndex'' @ [CHR 0x22] @ '':1},{'' @ [CHR 0x22] @ ''id'' @ [CHR 0x22] @ '':'' @ [CHR 0x22] @ ''n2'' @ [CHR 0x22] @ '','' @ [CHR 0x22] @ ''question'' @ [CHR 0x22] @ '':'' @ [CHR 0x22] @ ''2 + 1'' @
     '' = ?'' @ [CHR 0x22] @ '','' @ [CHR 0x22] @ ''options'' @ [CHR 0x22] @ '':['' @ [CHR 0x22] @ ''2'' @ [CHR 0x22] @ '','' @ [CHR 0x22] @ ''3'' @ [CHR 0x22] @ '','' @ [CHR 0x22] @ ''4'' @ [CHR 0x22] @ ''],'' @ [CHR 0x22] @ ''answerInd'' @
     ''ex'' @ [CHR 0x22] @ '':1},{'' @ [CHR 0x22] @ ''id'' @ [CHR 0x22] @ '':'' @ [CHR 0x22] @ ''n3'' @ [CHR 0x22] @ '','' @ [CHR 0x22] @ ''question'' @ [CHR 0x22] @ '':'' @ [CHR 0x22] @ ''3 + 1 = ?'' @ [CHR 0x22] @
     '','' @ [CHR 0x22] @ ''options'' @ [CHR 0x22] @ '':['' @ [CHR 0x22] @ ''3'' @ [CHR 0x22] @ '','' @ [CHR 0x22] @ ''4'' @ [CHR 0x22] @ '','' @ [CHR 0x22] @ ''5'' @ [CHR 0x22] @ ''],'' @ [CHR 0x22] @ ''answerIndex'' @ [CHR 0x22] @ '':1'' @
     ''},{'' @ [CHR 0x22] @ ''id'' @ [CHR 0x22] @ '':'' @ [CHR 0x22] @ ''n4'' @ [CHR 0x22] @ '','' @ [CHR 0x22] @ ''question'' @ [CHR 0x22] @ '':'' @ [CHR 0x22] @ ''4 + 1 = ?'' @ [CHR 0x22] @ '','' @ [CHR 0x22] @ ''opt'' @
     ''ions'' @ [CHR 0x22] @ '':['' @ [CHR 0x22] @ ''4'' @ [CHR 0x22] @ '','' @ [CHR 0x22] @ ''5'' @ [CHR 0x22] @ '','' @ [CHR 0x22] @ ''6'' @ [CHR 0x22] @ ''],'' @ [CHR 0x22] @ ''answerIndex'' @ [CHR 0x22] @ '':1},{'' @ [CHR 0x22] @ ''i'' @
     ''d'' @ [CHR 0x22] @ '':'' @ [CHR 0x22] @ ''n5'' @ [CHR 0x22] @ '','' @ [CHR 0x22] @ ''question'' @ [CHR 0x22] @ '':'' @ [CHR 0x22] @ ''5 + 1 = ?'' @ [CHR 0x22] @ '','' @ [CHR 0x22] @ ''options'' @ [CHR 0x22] @
     '':['' @ [CHR 0x22] @ ''5'' @ [CHR 0x22] @ '','' @ [CHR 0x22] @ ''6'' @ [CHR 0x22] @ '','' @ [CHR 0x22] @ ''7'' @ [CHR 0x22] @ ''],'' @ [CHR 0x22] @ ''answerIndex'' @ [CHR 0x22] @ '':1},{'' @ [CHR 0x22] @ ''id'' @ [CHR 0x22] @ '':'' @ [CHR 0x22] @ ''n'' @
     ''6'' @ [CHR 0x22] @ '','' @ [CHR 0x22] @ ''question'' @ [CHR 0x22] @ '':'' @ [CHR 0x22] @ ''6 + 1 = ?'' @ [CHR 0x22] @ '','' @ [CHR 0x22] @ ''options'' @ [CHR 0x22] @ '':['' @ [CHR 0x22] @ ''6'' @ [CHR 0x22] @
     '','' @ [CHR 0x22] @ ''7'' @ [CHR 0x22] @ '','' @ [CHR 0x22] @ ''8'' @ [CHR 0x22] @ ''],'' @ [CHR 0x22] @ ''answerIndex'' @ [CHR 0x22] @ '':1},{'' @ [CHR 0x22] @ ''id'' @ [CHR 0x22] @ '':'' @ [CHR 0x22] @ ''n7'' @ [CHR 0x22] @ '','' @ [CHR 0x22] @ ''q'' @
     ''uestion'' @ [CHR 0x22] @ '':'' @ [CHR 0x22] @ ''7 + 1 = ?'' @ [CHR 0x22] @ '','' @ [CHR 0x22] @ ''options'' @ [CHR 0x22] @ '':['' @ [CHR 0x22] @ ''7'' @ [CHR 0x22] @ '','' @ [CHR 0x22] @ ''8'' @ [CHR 0x22] @ '','' @
     [CHR 0x22] @ ''9'' @ [CHR 0x22] @ ''],'' @ [CHR 0x22] @ ''answerIndex'' @ [CHR 0x22] @ '':1},{'' @ [CHR 0x22] @ ''id'' @ [CHR 0x22] @ '':'' @ [CHR 0x22] @ ''n8'' @ [CHR 0x22] @ '','' @ [CHR 0x22] @ ''questi'' @
     ''on'' @ [CHR 0x22] @ '':'' @ [CHR 0x22] @ ''8 + 1 = ?'' @ [CHR 0x22] @ '','' @ [CHR 0x22] @ ''options'' @ [CHR 0x22] @ '':['' @ [CHR 0x22] @ ''8'' @ [CHR 0x22] @ '','' @ [CHR 0x22] @ ''9'' @ [CHR 0x22] @ '','' @ [CHR 0x22] @ ''10'' @ [CHR 0x22] @ '']'' @
     '','' @ [CHR 0x22] @ ''answerIndex'' @ [CHR 0x22] @ '':1},{'' @ [CHR 0x22] @ ''id'' @ [CHR 0x22] @ '':'' @ [CHR 0x22] @ ''n9'' @ [CHR 0x22] @ '','' @ [CHR 0x22] @ ''question'' @ [CHR 0x22] @ '':'' @
     [CHR 0x22] @ ''9 + 1 = ?'' @ [CHR 0x22] @ '','' @ [CHR 0x22] @ ''options'' @ [CHR 0x22] @ '':['' @ [CHR 0x22] @ ''9'' @ [CHR 0x22] @ '','' @ [CHR 0x22] @ ''10'' @ [CHR 0x22] @ '','' @ [CHR 0x22] @ ''11'' @ [CHR 0x22] @ ''],'' @ [CHR 0x22] @ ''a'' @
     ''nswerIndex'' @ [CHR 0x22] @ '':1},{'' @ [CHR 0x22] @ ''id'' @ [CHR 0x22] @ '':'' @ [CHR 0x22] @ ''n10'' @ [CHR 0x22] @ '','' @ [CHR 0x22] @ ''question'' @ [CHR 0x22] @ '':'' @ [CHR 0x22] @ ''1'' @
     ''0 + 1 = ?'' @ [CHR 0x22] @ '','' @ [CHR 0x22] @ ''options'' @ [CHR 0x22] @ '':['' @ [CHR 0x22] @ ''10'' @ [CHR 0x22] @ '','' @ [CHR 0x22] @ ''11'' @ [CHR 0x22] @ '','' @ [CHR 0x22] @ ''12'' @ [CHR 0x22] @ ''],'' @ [CHR 0x22] @ ''a'' @
     ''nswerIndex'' @ [CHR 0x22] @ '':1},{'' @ [CHR 0x22] @ ''id'' @ [CHR 0x22] @ '':'' @ [CHR 0x22] @ ''n11'' @ [CHR 0x22] @ '','' @ [CHR 0x22] @ ''question'' @ [CHR 0x22] @ '':'' @ [CHR 0x22] @ ''1'' @
     ''1 + 1 = ?'' @ [CHR 0x22] @ '','' @ [CHR 0x22] @ ''options'' @ [CHR 0x22] @ '':['' @ [CHR 0x22] @ ''11'' @ [CHR 0x22] @ '','' @ [CHR 0x22] @ ''12'' @ [CHR 0x22] @ '','' @ [CHR 0x22] @ ''13'' @ [CHR 0x22] @ ''],'' @ [CHR 0x22] @ ''a'' @
     ''nswerIndex'' @ [CHR 0x22] @ '':1},{'' @ [CHR 0x22] @ ''id'' @ [CHR 0x22] @ '':'' @ [CHR 0x22] @ ''n12'' @ [CHR 0x22] @ '','' @ [CHR 0x22] @ ''question'' @ [CHR 0x22] @ '':'' @ [CHR 0x22] @ ''1'' @
     ''2 + 1 = ?'' @ [CHR 0x22] @ '','' @ [CHR 0x22] @ ''options'' @ [CHR 0x22] @ '':['' @ [CHR 0x22] @ ''12'' @ [CHR 0x22] @ '','' @ [CHR 0x22] @ ''13'' @ [CHR 0x22] @ '','' @ [CHR 0x22] @ ''14'' @ [CHR 0x22] @ ''],'' @ [CHR 0x22] @ ''a'' @
     ''nswerIndex'' @ [CHR 0x22] @ '':1},{'' @ [CHR 0x22] @ ''id'' @ [CHR 0x22] @ '':'' @ [CHR 0x22] @ ''n13'' @ [CHR 0x22] @ '','' @ [CHR 0x22] @ ''question'' @ [CHR 0x22] @ '':'' @ [CHR 0x22] @ ''1'' @
     ''3 + 1 = ?'' @ [CHR 0x22] @ '','' @ [CHR 0x22] @ ''options'' @ [CHR 0x22] @ '':['' @ [CHR 0x22] @ ''13'' @ [CHR 0x22] @ '','' @ [CHR 0x22] @ ''14'' @ [CHR 0x22] @ '','' @ [CHR 0x22] @ ''15'' @ [CHR 0x22] @ ''],'' @ [CHR 0x22] @ ''a'' @
     ''nswerIndex'' @ [CHR 0x22] @ '':1},{'' @ [CHR 0x22] @ ''id'' @ [CHR 0x22] @ '':'' @ [CHR 0x22] @ ''n14'' @ [CHR 0x22] @ '','' @ [CHR 0x22] @ ''question'' @ [CHR 0x22] @ '':'' @ [CHR 0x22] @ ''1'' @
     ''4 + 1 = ?'' @ [CHR 0x22] @ '','' @ [CHR 0x22] @ ''options'' @ [CHR 0x22] @ '':['' @ [CHR 0x22] @ ''14'' @ [CHR 0x22] @ '','' @ [CHR 0x22] @ ''15'' @ [CHR 0x22] @ '','' @ [CHR 0x22] @ ''16'' @ [CHR 0x22] @ ''],'' @ [CHR 0x22] @ ''a'' @
     ''nswerIndex'' @ [CHR 0x22] @ '':1},{'' @ [CHR 0x22] @ ''id'' @ [CHR 0x22] @ '':'' @ [CHR 0x22] @ ''n15'' @ [CHR 0x22] @ '','' @ [CHR 0x22] @ ''question'' @ [CHR 0x22] @ '':'' @ [CHR 0x22] @ ''1'' @
     ''5 + 1 = ?'' @ [CHR 0x22] @ '','' @ [CHR 0x22] @ ''options'' @ [CHR 0x22] @ '':['' @ [CHR 0x22] @ ''15'' @ [CHR 0x22] @ '','' @ [CHR 0x22] @ ''16'' @ [CHR 0x22] @ '','' @ [CHR 0x22] @ ''17'' @ [CHR 0x22] @ ''],'' @ [CHR 0x22] @ ''a'' @
     ''nswerIndex'' @ [CHR 0x22] @ '':1},{'' @ [CHR 0x22] @ ''id'' @ [CHR 0x22] @ '':'' @ [CHR 0x22] @ ''n16'' @ [CHR 0x22] @ '','' @ [CHR 0x22] @ ''question'' @ [CHR 0x22] @ '':'' @ [CHR 0x22] @ ''1'' @
     ''6 + 1 = ?'' @ [CHR 0x22] @ '','' @ [CHR 0x22] @ ''options'' @ [CHR 0x22] @ '':['' @ [CHR 0x22] @ ''16'' @ [CHR 0x22] @ '','' @ [CHR 0x22] @ ''17'' @ [CHR 0x22] @ '','' @ [CHR 0x22] @ ''18'' @ [CHR 0x22] @ ''],'' @ [CHR 0x22] @ ''a'' @
     ''nswerIndex'' @ [CHR 0x22] @ '':1},{'' @ [CHR 0x22] @ ''id'' @ [CHR 0x22] @ '':'' @ [CHR 0x22] @ ''n17'' @ [CHR 0x22] @ '','' @ [CHR 0x22] @ ''question'' @ [CHR 0x22] @ '':'' @ [CHR 0x22] @ ''1'' @
     ''7 + 1 = ?'' @ [CHR 0x22] @ '','' @ [CHR 0x22] @ ''options'' @ [CHR 0x22] @ '':['' @ [CHR 0x22] @ ''17'' @ [CHR 0x22] @ '','' @ [CHR 0x22] @ ''18'' @ [CHR 0x22] @ '','' @ [CHR 0x22] @ ''19'' @ [CHR 0x22] @ ''],'' @ [CHR 0x22] @ ''a'' @
     ''nswerIndex'' @ [CHR 0x22] @ '':1},{'' @ [CHR 0x22] @ ''id'' @ [CHR 0x22] @ '':'' @ [CHR 0x22] @ ''n18'' @ [CHR 0x22] @ '','' @ [CHR 0x22] @ ''question'' @ [CHR 0x22] @ '':'' @ [CHR 0x22] @ ''1'' @
     ''8 + 1 = ?'' @ [CHR 0x22] @ '','' @ [CHR 0x22] @ ''options'' @ [CHR 0x22] @ '':['' @ [CHR 0x22] @ ''18'' @ [CHR 0x22] @ '','' @ [CHR 0x22] @ ''19'' @ [CHR 0x22] @ '','' @ [CHR 0x22] @ ''20'' @ [CHR 0x22] @ ''],'' @ [CHR 0x22] @ ''a'' @
     ''nswerIndex'' @ [CHR 0x22] @ '':1},{'' @ [CHR 0x22] @ ''id'' @ [CHR 0x22] @ '':'' @ [CHR 0x22] @ ''n19'' @ [CHR 0x22] @ '','' @ [CHR 0x22] @ ''question'' @ [CHR 0x22] @ '':'' @ [CHR 0x22] @ ''1'' @
     ''9 + 1 = ?'' @ [CHR 0x22] @ '','' @ [CHR 0x22] @ ''options'' @ [CHR 0x22] @ '':['' @ [CHR 0x22] @ ''19'' @ [CHR 0x22] @ '','' @ [CHR 0x22] @ ''20'' @ [CHR 0x22] @ '','' @ [CHR 0x22] @ ''21'' @ [CHR 0x22] @ ''],'' @ [CHR 0x22] @ ''a'' @
     ''nswerIndex'' @ [CHR 0x22] @ '':1},{'' @ [CHR 0x22] @ ''id'' @ [CHR 0x22] @ '':'' @ [CHR 0x22] @ ''n20'' @ [CHR 0x22] @ '','' @ [CHR 0x22] @ ''question'' @ [CHR 0x22] @ '':'' @ [CHR 0x22] @ ''2'' @
     ''0 + 1 = ?'' @ [CHR 0x22] @ '','' @ [CHR 0x22] @ ''options'' @ [CHR 0x22] @ '':['' @ [CHR 0x22] @ ''20'' @ [CHR 0x22] @ '','' @ [CHR 0x22] @ ''21'' @ [CHR 0x22] @ '','' @ [CHR 0x22] @ ''22'' @ [CHR 0x22] @ ''],'' @ [CHR 0x22] @ ''a'' @
     ''nswerIndex'' @ [CHR 0x22] @ '':1}],'' @ [CHR 0x22] @ ''logical'' @ [CHR 0x22] @ '':[{'' @ [CHR 0x22] @ ''id'' @ [CHR 0x22] @ '':'' @ [CHR 0x22]"

definition wide_json_tail :: string where
  "wide_json_tail =
     [CHR 0x22] @ '','' @ [CHR 0x22] @ ''question'' @ [CHR 0x22] @ '':'' @ [CHR 0x22] @ ''2 + 2 = ?'' @ [CHR 0x22] @ '','' @ [CHR 0x22] @ ''options'' @ [CHR 0x22] @ '':['' @ [CHR 0x22] @ ''3'' @ [CHR 0x22] @ '','' @
     [CHR 0x22] @ ''4'' @ [CHR 0x22] @ '','' @ [CHR 0x22] @ ''5'' @ [CHR 0x22] @ ''],'' @ [CHR 0x22] @ ''answerIndex'' @ [CHR 0x22] @ '':1}],'' @ [CHR 0x22] @ ''verbal'' @ [CHR 0x22] @ '':[{'' @ [CHR 0x22] @ ''i'' @
     ''d'' @ [CHR 0x22] @ '':'' @ [CHR 0x22] @ ''z1'' @ [CHR 0x22] @ '','' @ [CHR 0x22] @ ''question'' @ [CHR 0x22] @ '':'' @ [CHR 0x22] @ ''2 + 2 = ?'' @ [CHR 0x22] @ '','' @ [CHR 0x22] @ ''options'' @ [CHR 0x22] @
     '':['' @ [CHR 0x22] @ ''3'' @ [CHR 0x22] @ '','' @ [CHR 0x22] @ ''4'' @ [CHR 0x22] @ '','' @ [CHR 0x22] @ ''5'' @ [CHR 0x22] @ ''],'' @ [CHR 0x22] @ ''answerIndex'' @ [CHR 0x22] @ '':1}]}''"

definition wide_json :: string where
  "wide_json = wide_json_head @ ''y1'' @ wide_json_tail"

definition clash_json :: string where
  "clash_json = wide_json_head @ ''n1'' @ wide_json_tail"

text \<open>A reply whose three sections are numbers.\<close>

definition broken_json :: string where
  "broken_json = ''{'' @ [CHR 0x22] @ ''quantitative'' @ [CHR 0x22] @ '':1,'' @ [CHR 0x22] @ ''logical'' @ [CHR 0x22] @ '':1,'' @ [CHR 0x22] @ ''verbal'' @ [CHR 0x22] @ '':1}''"

text \<open>\<^verbatim>\<open>JSON.parse\<close> on these three texts.\<close>

definition wide_parse :: "string \<Rightarrow> parse_result" where
  "wide_parse s =
     (if s = wide_json then Parsed wide_bank
      else if s = clash_json then Parsed clash_bank
      else if s = broken_json
        then Parsed \<lparr>quantitative = NotAnArray, logical = NotAnArray, verbal = NotAnArray\<rparr>
      else ParseThrows)"

definition wide_env :: gemini_env where
  "wide_env =
     \<lparr>GEMINI_API_KEY = Some ''key'',
      fetch = (\<lambda>lv. HttpResponse True (Data None (Some wide_json))),
      JSON_parse = wide_parse\<rparr>"

definition clash_env :: gemini_env where
  "clash_env = wide_env\<lparr>fetch := \<lambda>lv. HttpResponse True (Data None (Some clash_json))\<rparr>"

definition broken_env :: gemini_env where
  "broken_env = wide_env\<lparr>fetch := \<lambda>lv. HttpResponse True (Data (Some broken_json) None)\<rparr>"

definition wide_world :: world where
  "wide_world = example_world\<lparr>gemini := wide_env\<rparr>"

definition later_world :: world where
  "later_world =
     wide_world\<lparr>next_draw := 43, now_lookup := 1700003600000,
       now_record := 1700003600900, now_prune := 1700003600901\<rparr>"

text \<open>A third request, another hour later.\<close>

definition third_world :: world where
  "third_world =
     wide_world\<lparr>next_draw := 86, now_lookup := 1700007200000,
       now_record := 1700007200900, now_prune := 1700007200901\<rparr>"

text \<open>
  A request that starts 100 ms after the request of \<open>wide_world\<close> started, before that
  one has stored its attempt, and resumes after it.
\<close>

definition overlapping_world :: world where
  "overlapping_world =
     wide_world\<lparr>next_draw := 43, now_lookup := 1700000000100,
       now_record := 1700000000900, now_prune := 1700000000901\<rparr>"

definition clash_world :: world where
  "clash_world = wide_world\<lparr>gemini := clash_env\<rparr>"

definition clash_later_world :: world where
  "clash_later_world = later_world\<lparr>gemini := clash_env\<rparr>"

definition broken_world :: world where
  "broken_world = example_world\<lparr>gemini := broken_env\<rparr>"











section \<open>Properties of the shuffle helper\<close>

lemma random_index_le:
  assumes "valid_rng rnd"
  shows "random_index rnd k i \<le> i"
proof -
  have lo: "0 \<le> rnd k" and hi: "rnd k < 1"
    using assms by (simp_all add: valid_rng_def)
  have "rnd k * of_nat (i + 1) < of_nat (i + 1)"
    using hi by simp
  then have "\<lfloor>rnd k * of_nat (i + 1)\<rfloor> < int (i + 1)"
    by (simp add: floor_less_iff)
  then show ?thesis
    by (simp add: random_index_def)
qed

lemma length_swap [simp]: "length (swap xs i j) = length xs"
  by (simp add: swap_def)

lemma mset_swap_cells:
  assumes "i < length xs" "j < length xs"
  shows "mset (swap xs i j) = mset xs"
  using assms by (simp add: swap_def mset_swap)

lemma shuffle_loop_length:
  "length (fst (shuffle_loop rnd k xs n)) = length xs"
  by (induction n arbitrary: k xs) simp_all

lemma shuffle_loop_mset:
  assumes "valid_rng rnd" "n < length xs"
  shows "mset (fst (shuffle_loop rnd k xs n)) = mset xs"
  using assms(2)
proof (induction n arbitrary: k xs)
  case 0
  show ?case by simp
next
  case (Suc n)
  let ?j = "random_index rnd k (Suc n)"
  have j: "?j < length xs"
    using random_index_le [OF assms(1), of k "Suc n"] Suc.prems by simp
  have "mset (fst (shuffle_loop rnd (Suc k) (swap xs (Suc n) ?j) n))
          = mset (swap xs (Suc n) ?j)"
    using Suc.prems by (intro Suc.IH) simp
  also have "\<dots> = mset xs"
    using Suc.prems j by (simp add: mset_swap_cells)
  finally show ?case by simp
qed

lemma shuffleArray_mset:
  assumes "valid_rng rnd"
  shows "mset (fst (shuffleArray rnd k xs)) = mset xs"
proof (cases xs)
  case Nil
  then show ?thesis by (simp add: shuffleArray_def)
next
  case (Cons x ys)
  then show ?thesis
    using shuffle_loop_mset [OF assms, of "length xs - 1" xs k]
    by (simp add: shuffleArray_def)
qed

lemma shuffleArray_length [simp]:
  "length (fst (shuffleArray rnd k xs)) = length xs"
  by (simp add: shuffleArray_def shuffle_loop_length)

lemma shuffleArray_set:
  "valid_rng rnd \<Longrightarrow> set (fst (shuffleArray rnd k xs)) = set xs"
  using shuffleArray_mset [of rnd k xs] by (metis set_mset_mset)

text \<open>The loop over the store touches cell \<open>s\<close> only and computes what the value-level loop does.\<close>

lemma shuffle_loop_store_eq:
  assumes "s < length h"
  shows "shuffle_loop_store rnd k h s n =
           (h[s := fst (shuffle_loop rnd k (h ! s) n)], snd (shuffle_loop rnd k (h ! s) n))"
  using assms
proof (induction n arbitrary: k h)
  case 0
  then show ?case by simp
next
  case (Suc n)
  then show ?case by simp
qed

section \<open>Properties of option shuffling\<close>

lemma index_from_found:
  assumes "v \<in> set xs"
  shows "i \<le> index_from xs v i \<and> index_from xs v i < i + int (length xs)
         \<and> xs ! nat (index_from xs v i - i) = v"
  using assms
proof (induction xs arbitrary: i)
  case Nil
  then show ?case by simp
next
  case (Cons x xs)
  show ?case
  proof (cases "x = v")
    case True
    then show ?thesis by simp
  next
    case False
    with Cons.prems have "v \<in> set xs" by simp
    from Cons.IH [OF this, of "i + 1"]
    have a: "i + 1 \<le> index_from xs v (i + 1)"
      and b: "index_from xs v (i + 1) < i + 1 + int (length xs)"
      and c: "xs ! nat (index_from xs v (i + 1) - (i + 1)) = v"
      by simp_all
    have "nat (index_from xs v (i + 1) - i) = Suc (nat (index_from xs v (i + 1) - (i + 1)))"
      using a by simp
    then show ?thesis using False a b c by simp
  qed
qed

lemma element_at_indexOf:
  assumes "v \<in> set xs"
  shows "element_at xs (indexOf xs (Some v)) = Some v"
  using index_from_found [OF assms, of 0]
  by (simp add: element_at_def indexOf_def)

lemma element_at_valid:
  "0 \<le> i \<Longrightarrow> i < int (length xs) \<Longrightarrow> element_at xs i = Some (xs ! nat i)"
  by (simp add: element_at_def)

lemma shuffle_options_fields:
  "id_q (fst (shuffle_options rnd k q)) = id_q q"
  "question (fst (shuffle_options rnd k q)) = question q"
  "options (fst (shuffle_options rnd k q)) = fst (shuffleArray rnd k (options q))"
  by (simp_all add: shuffle_options_def split: prod.splits)

lemma shuffle_options_answer:
  assumes "valid_rng rnd" "0 \<le> answerIndex q" "answerIndex q < int (length (options q))"
  shows "element_at (options (fst (shuffle_options rnd k q)))
           (answerIndex (fst (shuffle_options rnd k q)))
         = Some (options q ! nat (answerIndex q))"
proof -
  let ?c = "options q ! nat (answerIndex q)"
  let ?s = "fst (shuffleArray rnd k (options q))"
  have "?c \<in> set (options q)"
    using assms(2,3) by simp
  then have mem: "?c \<in> set ?s"
    by (simp only: shuffleArray_set [OF assms(1)])
  have "answerIndex (fst (shuffle_options rnd k q)) = indexOf ?s (Some ?c)"
    using assms(2,3)
    by (simp add: shuffle_options_def element_at_def split: prod.splits)
  then show ?thesis
    using element_at_indexOf [OF mem] by (simp add: shuffle_options_fields)
qed

lemma map_shuffle_options_ids:
  "map id_q (fst (map_shuffle_options rnd k qs)) = map id_q qs"
proof (induction qs arbitrary: k)
  case Nil
  show ?case by simp
next
  case (Cons q qs)
  obtain q1 k1 where s: "shuffle_options rnd k q = (q1, k1)"
    by (cases "shuffle_options rnd k q")
  obtain rest k2 where r: "map_shuffle_options rnd k1 qs = (rest, k2)"
    by (cases "map_shuffle_options rnd k1 qs")
  have "id_q q1 = id_q q"
    using shuffle_options_fields(1) [of rnd k q] s by simp
  moreover have "map id_q rest = map id_q qs"
    using Cons.IH [of k1] r by simp
  ultimately show ?case using s r by simp
qed

lemma map_shuffle_options_length:
  "length (fst (map_shuffle_options rnd k qs)) = length qs"
  using map_shuffle_options_ids [of rnd k qs] by (metis length_map)

lemma map_shuffle_options_origin:
  assumes "q' \<in> set (fst (map_shuffle_options rnd k qs))"
  shows "\<exists>q \<in> set qs. \<exists>k0. q' = fst (shuffle_options rnd k0 q)"
  using assms
proof (induction qs arbitrary: k)
  case Nil
  then show ?case by simp
next
  case (Cons q qs)
  obtain q1 k1 where s: "shuffle_options rnd k q = (q1, k1)"
    by (cases "shuffle_options rnd k q")
  obtain rest k2 where r: "map_shuffle_options rnd k1 qs = (rest, k2)"
    by (cases "map_shuffle_options rnd k1 qs")
  from Cons.prems s r have "q' = q1 \<or> q' \<in> set rest" by simp
  then show ?case
  proof
    assume "q' = q1"
    then have "q' = fst (shuffle_options rnd k q)" using s by simp
    then show ?thesis by auto
  next
    assume "q' \<in> set rest"
    then have "q' \<in> set (fst (map_shuffle_options rnd k1 qs))" using r by simp
    from Cons.IH [OF this] show ?thesis by auto
  qed
qed

section \<open>Properties of the selection within a section\<close>

lemma availableQuestions_subset:
  "set (availableQuestions qs usedIds) \<subseteq> set qs"
  by (auto simp: availableQuestions_def Let_def)



lemma processSection_Questions:
  "processSection rnd k (Questions qs) usedIds =
     Inr (map_shuffle_options rnd (snd (shuffleArray rnd k (availableQuestions qs usedIds)))
            (selected rnd k qs usedIds))"
  by (simp add: processSection_def selected_def split: prod.splits)

lemma processSection_Inr:
  assumes "processSection rnd k sec usedIds = Inr (result, k')"
  shows "\<exists>qs. sec = Questions qs"
  using assms by (cases sec) (simp_all add: processSection_def)

lemma selected_subset:
  assumes "valid_rng rnd"
  shows "set (selected rnd k qs usedIds) \<subseteq> set (availableQuestions qs usedIds)"
proof -
  have "set (selected rnd k qs usedIds)
          \<subseteq> set (fst (shuffleArray rnd k (availableQuestions qs usedIds)))"
    unfolding selected_def by (rule set_take_subset)
  then show ?thesis
    by (simp only: shuffleArray_set [OF assms])
qed

lemma selected_length:
  "length (selected rnd k qs usedIds) = min 10 (length (availableQuestions qs usedIds))"
  by (simp add: selected_def min.commute)

lemma processSection_ids:
  assumes "processSection rnd k (Questions qs) usedIds = Inr (result, k')"
  shows "map id_q result = map id_q (selected rnd k qs usedIds)"
  using assms map_shuffle_options_ids
  by (metis processSection_Questions fst_conv sum.inject(2))

lemma processSection_length:
  assumes "processSection rnd k (Questions qs) usedIds = Inr (result, k')"
  shows "length result = min 10 (length (availableQuestions qs usedIds))"
  using processSection_ids [OF assms] selected_length [of rnd k qs usedIds]
  by (metis length_map)

lemma processSection_origin:
  assumes "processSection rnd k (Questions qs) usedIds = Inr (result, k')"
    and "q' \<in> set result"
  shows "\<exists>q \<in> set (selected rnd k qs usedIds). \<exists>k0. q' = fst (shuffle_options rnd k0 q)"
proof -
  have "result = fst (map_shuffle_options rnd
          (snd (shuffleArray rnd k (availableQuestions qs usedIds))) (selected rnd k qs usedIds))"
    using assms(1) by (simp add: processSection_Questions)
  with assms(2) show ?thesis
    using map_shuffle_options_origin by blast
qed

text \<open>Where a returned question comes from, and what option shuffling keeps.\<close>

lemma returned_question_consistent:
  assumes "valid_rng rnd"
    and "processSection rnd k (Questions qs) usedIds = Inr (result, k')"
    and "q' \<in> set result"
  shows "\<exists>q \<in> set qs.
           id_q q' = id_q q \<and> question q' = question q
           \<and> mset (options q') = mset (options q)
           \<and> (0 \<le> answerIndex q \<and> answerIndex q < int (length (options q))
                \<longrightarrow> element_at (options q') (answerIndex q')
                      = Some (options q ! nat (answerIndex q)))"
proof -
  from processSection_origin [OF assms(2,3)]
  obtain q k0 where q: "q \<in> set (selected rnd k qs usedIds)"
    and q': "q' = fst (shuffle_options rnd k0 q)"
    by blast
  have "q \<in> set qs"
    using q selected_subset [OF assms(1)] availableQuestions_subset by blast
  moreover have "id_q q' = id_q q" "question q' = question q"
    using q' by (simp_all add: shuffle_options_fields)
  moreover have "mset (options q') = mset (options q)"
    using q' by (simp add: shuffle_options_fields shuffleArray_mset [OF assms(1)])
  moreover have "0 \<le> answerIndex q \<and> answerIndex q < int (length (options q))
      \<longrightarrow> element_at (options q') (answerIndex q') = Some (options q ! nat (answerIndex q))"
    using q' shuffle_options_answer [OF assms(1)] by simp
  ultimately show ?thesis by blast
qed

lemma valid_example_rng: "valid_rng example_rng"
proof -
  have "k mod 4 < 4" for k :: nat by simp
  then have "(of_nat (k mod 4) :: rat) < 4" for k :: nat
    by (metis of_nat_less_iff of_nat_numeral)
  then show ?thesis
    by (simp add: valid_rng_def example_rng_def)
qed

text \<open>
  C1. Every question returned by \<open>processSection\<close> is a question of the section with its
  options permuted, and when the answer index of that question is a valid index into its
  options, the returned options at the returned answer index hold the text of the
  original correct option.
\<close>

theorem processSection_keeps_correct_option:
  assumes "valid_rng rnd"
    and "processSection rnd k (Questions qs) usedIds = Inr (result, k')"
    and "q' \<in> set result"
  shows "\<exists>q \<in> set qs.
           id_q q' = id_q q \<and> question q' = question q
           \<and> mset (options q') = mset (options q)
           \<and> (0 \<le> answerIndex q \<and> answerIndex q < int (length (options q))
                \<longrightarrow> element_at (options q') (answerIndex q')
                      = Some (options q ! nat (answerIndex q)))"
  using assms by (rule returned_question_consistent)

theorem processSection_keeps_correct_option_witness:
  "valid_rng example_rng
   \<and> processSection example_rng 0 (Questions [example_question]) []
       = Inr ([example_question\<lparr>options := [''4'', ''5'', ''3''], answerIndex := 0\<rparr>], 2)
   \<and> (\<exists>q \<in> set [example_question].
         id_q (example_question\<lparr>options := [''4'', ''5'', ''3''], answerIndex := 0\<rparr>) = id_q q
         \<and> question (example_question\<lparr>options := [''4'', ''5'', ''3''], answerIndex := 0\<rparr>)
             = question q
         \<and> mset (options (example_question\<lparr>options := [''4'', ''5'', ''3''], answerIndex := 0\<rparr>))
             = mset (options q)
         \<and> (0 \<le> answerIndex q \<and> answerIndex q < int (length (options q))
              \<longrightarrow> element_at
                    (options (example_question\<lparr>options := [''4'', ''5'', ''3''], answerIndex := 0\<rparr>))
                    (answerIndex (example_question\<lparr>options := [''4'', ''5'', ''3''], answerIndex := 0\<rparr>))
                  = Some (options q ! nat (answerIndex q))))"
proof -
  have a: "valid_rng example_rng"
    by (rule valid_example_rng)
  have b: "processSection example_rng 0 (Questions [example_question]) []
       = Inr ([example_question\<lparr>options := [''4'', ''5'', ''3''], answerIndex := 0\<rparr>], 2)"
    by code_simp
  have c: "example_question\<lparr>options := [''4'', ''5'', ''3''], answerIndex := 0\<rparr>
             \<in> set [example_question\<lparr>options := [''4'', ''5'', ''3''], answerIndex := 0\<rparr>]"
    by simp
  from processSection_keeps_correct_option [OF a b c] a b show ?thesis
    by blast
qed

section \<open>The shuffle helper over the store\<close>

lemma shuffleArray_store_eq:
  "shuffleArray_store rnd k h array =
     (h @ [fst (shuffleArray rnd k (h ! array))], length h,
      snd (shuffleArray rnd k (h ! array)))"
proof -
  let ?h1 = "h @ [h ! array]"
  have s: "length h < length ?h1" by simp
  have cell: "?h1 ! length h = h ! array" by simp
  show ?thesis
    unfolding shuffleArray_store_def Let_def
    by (simp only: shuffle_loop_store_eq [OF s] cell shuffleArray_def)
       (simp add: shuffleArray_def)
qed

text \<open>
  C10. For every array of the store and every stream of draws, the array returned by the
  shuffle helper is a permutation of the argument (the same elements with the same
  multiplicities), it is a new array, and the argument and every other array of the store
  are left as they were.
\<close>

theorem shuffleArray_permutes_and_keeps_input:
  assumes "valid_rng rnd"
    and "array < length h"
    and "shuffleArray_store rnd k h array = (h', shuffled, k')"
  shows "mset (h' ! shuffled) = mset (h ! array)
         \<and> shuffled \<noteq> array
         \<and> h' ! array = h ! array
         \<and> take (length h) h' = h
         \<and> h' ! shuffled = fst (shuffleArray rnd k (h ! array))"
proof -
  from assms(3) have h': "h' = h @ [fst (shuffleArray rnd k (h ! array))]"
    and sh: "shuffled = length h"
    by (simp_all add: shuffleArray_store_eq)
  have "h' ! shuffled = fst (shuffleArray rnd k (h ! array))"
    by (simp add: h' sh)
  moreover have "mset (fst (shuffleArray rnd k (h ! array))) = mset (h ! array)"
    by (rule shuffleArray_mset [OF assms(1)])
  moreover have "shuffled \<noteq> array"
    using assms(2) sh by simp
  moreover have "h' ! array = h ! array"
    using assms(2) by (simp add: h' nth_append)
  moreover have "take (length h) h' = h"
    by (simp add: h')
  ultimately show ?thesis by simp
qed

theorem shuffleArray_permutes_and_keeps_input_witness:
  "valid_rng example_rng
   \<and> (0 :: nat) < length [[1, 2, 3, 4 :: nat], [7, 8]]
   \<and> shuffleArray_store example_rng 0 [[1, 2, 3, 4 :: nat], [7, 8]] 0
        = ([[1, 2, 3, 4], [7, 8], [3, 2, 4, 1]], 2, 3)
   \<and> mset ([[1, 2, 3, 4 :: nat], [7, 8], [3, 2, 4, 1]] ! 2) = mset ([[1, 2, 3, 4], [7, 8]] ! 0)
   \<and> [[1, 2, 3, 4 :: nat], [7, 8], [3, 2, 4, 1]] ! 0 = [[1, 2, 3, 4], [7, 8]] ! 0"
proof -
  have a: "valid_rng example_rng"
    by (rule valid_example_rng)
  have b: "(0 :: nat) < length [[1, 2, 3, 4 :: nat], [7, 8]]"
    by simp
  have c: "shuffleArray_store example_rng 0 [[1, 2, 3, 4 :: nat], [7, 8]] 0
        = ([[1, 2, 3, 4], [7, 8], [3, 2, 4, 1]], 2, 3)"
    by code_simp
  from shuffleArray_permutes_and_keeps_input [OF a b c] a b c show ?thesis
    by blast
qed


section \<open>Properties of the quiz request\<close>

lemma generateQuestions_success:
  assumes "truthy email"
    and "processSection (random w) (next_draw w)
           (quantitative (generateAptitudeQuestions (gemini w) (level_or_other cl)))
           (usedQuestionIds st (the email) (now_lookup w)) = Inr (qs, k1)"
    and "processSection (random w) k1
           (logical (generateAptitudeQuestions (gemini w) (level_or_other cl)))
           (usedQuestionIds st (the email) (now_lookup w)) = Inr (ls, k2)"
    and "processSection (random w) k2
           (verbal (generateAptitudeQuestions (gemini w) (level_or_other cl)))
           (usedQuestionIds st (the email) (now_lookup w)) = Inr (vs, k3)"
  shows "generateQuestions w st cl email =
           (Ok200 \<lparr>quantitative = qs, logical = ls, verbal = vs\<rparr>,
            filter (\<lambda>a. timestamp a \<ge> now_prune w - 7 * 24 * 60 * 60 * 1000)
              (st @ [\<lparr>userEmail = the email, classLevel = cl,
                      questionIds = map id_q qs @ map id_q ls @ map id_q vs,
                      timestamp = now_record w\<rparr>]))"
  using assms by (simp add: generateQuestions_def Let_def)

lemma generateQuestions_Ok:
  assumes "generateQuestions w st cl email = (Ok200 r, st')"
  shows "truthy email
    \<and> (\<exists>k1 k2 k3.
         processSection (random w) (next_draw w)
           (quantitative (generateAptitudeQuestions (gemini w) (level_or_other cl)))
           (usedQuestionIds st (the email) (now_lookup w)) = Inr (quantitative r, k1)
       \<and> processSection (random w) k1
           (logical (generateAptitudeQuestions (gemini w) (level_or_other cl)))
           (usedQuestionIds st (the email) (now_lookup w)) = Inr (logical r, k2)
       \<and> processSection (random w) k2
           (verbal (generateAptitudeQuestions (gemini w) (level_or_other cl)))
           (usedQuestionIds st (the email) (now_lookup w)) = Inr (verbal r, k3))
    \<and> st' = filter (\<lambda>a. timestamp a \<ge> now_prune w - 7 * 24 * 60 * 60 * 1000)
              (st @ [\<lparr>userEmail = the email, classLevel = cl,
                      questionIds = map id_q (quantitative r) @ map id_q (logical r)
                                    @ map id_q (verbal r),
                      timestamp = now_record w\<rparr>])"
  using assms
  by (auto simp: generateQuestions_def Let_def split: if_splits sum.splits prod.splits)

text \<open>
  A request that is rejected (no email, status 400) or fails (a section that is not an
  array, status 500) returns before the attempt is stored and before the clean-up.
\<close>

lemma generateQuestions_not_ok:
  assumes "generateQuestions w st cl email = (resp, st')"
    and "resp = Status400 \<or> resp = Status500"
  shows "st' = st"
  using assms
  by (auto simp: generateQuestions_def Let_def split: if_splits sum.splits prod.splits)

lemma generateQuestions_no_email:
  "\<not> truthy email \<Longrightarrow> generateQuestions w st cl email = (Status400, st)"
  by (simp add: generateQuestions_def)

lemma availableQuestions_length:
  assumes "10 \<le> length qs"
  shows "10 \<le> length (availableQuestions qs usedIds)"
  using assms by (simp add: availableQuestions_def Let_def)

lemma processSection_total:
  "\<exists>result k'. processSection rnd k (Questions qs) usedIds = Inr (result, k')"
  by (simp add: processSection_Questions)

lemma processSection_ten:
  assumes "10 \<le> length qs"
    and "processSection rnd k (Questions qs) usedIds = Inr (result, k')"
  shows "length result = 10"
  using processSection_length [OF assms(2)] availableQuestions_length [OF assms(1), of usedIds]
  by simp

lemma example_run:
  "generateQuestions example_world [] (Some ''10th'') (Some ''asha@example.org'')
     = (Ok200 example_response, [example_attempt])"
  by code_simp

lemma example_run_old:
  "generateQuestions example_world [old_attempt] (Some ''10th'') (Some ''asha@example.org'')
     = (Ok200 example_response, [example_attempt])"
  by code_simp

lemma offline_bank:
  "generateAptitudeQuestions (gemini offline_world) (level_or_other (Some ''10th''))
     = \<lparr>quantitative = Questions fallback_quantitative,
        logical = Questions fallback_logical,
        verbal = Questions fallback_verbal\<rparr>"
  by (simp add: generateAptitudeQuestions_def offline_world_def offline_env_def truthy_def
        fallbackQuestions_def)

lemma fallback_lengths:
  "length fallback_quantitative = 10" "length fallback_logical = 10"
  "length fallback_verbal = 10"
  by (simp_all add: fallback_quantitative_def fallback_logical_def fallback_verbal_def)

lemma valid_example_world: "valid_rng (random example_world)" "valid_rng (random offline_world)"
  by (simp_all add: example_world_def offline_world_def valid_example_rng)

text \<open>
  The claim C5 as stated fails: with a question source that answers with one question per
  section the request succeeds and the response holds three questions.
\<close>

theorem generateQuestions_thirty_questions_counterexample:
  "generateQuestions example_world [] (Some ''10th'') (Some ''asha@example.org'')
     = (Ok200 example_response, [example_attempt])
   \<and> length (quantitative example_response @ logical example_response
              @ verbal example_response) = 3"
  by (simp add: example_run) (simp add: example_response_def)


section \<open>Retention of attempts\<close>

lemma recentAttempts_drop_old:
  "recentAttempts (filter (\<lambda>a. now - 7 * 24 * 60 * 60 * 1000 \<le> timestamp a) s) e now
     = recentAttempts s e now"
proof -
  have "(now - 7 * 24 * 60 * 60 * 1000 \<le> timestamp a
          \<and> userEmail a = e \<and> now - 24 * 60 * 60 * 1000 \<le> timestamp a)
        = (userEmail a = e \<and> now - 24 * 60 * 60 * 1000 \<le> timestamp a)" for a
    by auto
  then show ?thesis
    unfolding recentAttempts_def filter_filter by (intro filter_cong refl) auto
qed

lemma usedQuestionIds_drop_old:
  "usedQuestionIds (filter (\<lambda>a. now - 7 * 24 * 60 * 60 * 1000 \<le> timestamp a) s) e now
     = usedQuestionIds s e now"
  by (simp only: usedQuestionIds_def recentAttempts_drop_old)

lemma response_depends_on_used:
  assumes "usedQuestionIds s1 (the email) (now_lookup w)
             = usedQuestionIds s2 (the email) (now_lookup w)"
  shows "fst (generateQuestions w s1 cl email) = fst (generateQuestions w s2 cl email)"
  using assms
  by (simp add: generateQuestions_def Let_def split: sum.splits prod.splits)

text \<open>
  C7 (as amended). After a quiz request that is answered ok, every attempt in the
  store, whoever made it, has a timestamp no older than seven days before the clean-up. An
  attempt older than seven days never contributes to the excluded ids: it is not among
  the recent attempts, the excluded ids are those computed from the store without such
  attempts, and so is the response to any request.
\<close>

theorem generateQuestions_keeps_seven_days:
  assumes "generateQuestions w st cl email = (Ok200 r, st')"
  shows "(\<forall>a \<in> set st'. now_prune w - 7 * 24 * 60 * 60 * 1000 \<le> timestamp a)
         \<and> (\<forall>a \<in> set s. timestamp a < now - 7 * 24 * 60 * 60 * 1000
               \<longrightarrow> a \<notin> set (recentAttempts s e now))
         \<and> usedQuestionIds s e now
             = usedQuestionIds (filter (\<lambda>a. now - 7 * 24 * 60 * 60 * 1000 \<le> timestamp a) s) e now
         \<and> fst (generateQuestions w s cl email)
             = fst (generateQuestions w
                 (filter (\<lambda>a. now_lookup w - 7 * 24 * 60 * 60 * 1000 \<le> timestamp a) s) cl email)"
proof -
  have "st' = filter (\<lambda>a. timestamp a \<ge> now_prune w - 7 * 24 * 60 * 60 * 1000)
              (st @ [\<lparr>userEmail = the email, classLevel = cl,
                      questionIds = map id_q (quantitative r) @ map id_q (logical r)
                                    @ map id_q (verbal r),
                      timestamp = now_record w\<rparr>])"
    using generateQuestions_Ok [OF assms] by blast
  then have 1: "\<forall>a \<in> set st'. now_prune w - 7 * 24 * 60 * 60 * 1000 \<le> timestamp a"
    by simp
  have 2: "\<forall>a \<in> set s. timestamp a < now - 7 * 24 * 60 * 60 * 1000
               \<longrightarrow> a \<notin> set (recentAttempts s e now)"
    by (auto simp: recentAttempts_def)
  have 3: "usedQuestionIds s e now
      = usedQuestionIds (filter (\<lambda>a. now - 7 * 24 * 60 * 60 * 1000 \<le> timestamp a) s) e now"
    by (simp only: usedQuestionIds_drop_old)
  have 4: "fst (generateQuestions w s cl email)
      = fst (generateQuestions w
          (filter (\<lambda>a. now_lookup w - 7 * 24 * 60 * 60 * 1000 \<le> timestamp a) s) cl email)"
    by (rule response_depends_on_used) (simp only: usedQuestionIds_drop_old)
  from 1 2 3 4 show ?thesis by blast
qed

theorem generateQuestions_keeps_seven_days_witness:
  "generateQuestions example_world [old_attempt] (Some ''10th'') (Some ''asha@example.org'')
     = (Ok200 example_response, [example_attempt])
   \<and> timestamp old_attempt < now_prune example_world - 7 * 24 * 60 * 60 * 1000
   \<and> now_prune example_world - 7 * 24 * 60 * 60 * 1000 \<le> timestamp example_attempt
   \<and> old_attempt \<notin> set (recentAttempts [old_attempt] ''asha@example.org'' 1700000000000)"
proof -
  have old: "timestamp old_attempt < now_prune example_world - 7 * 24 * 60 * 60 * 1000"
    by (simp add: old_attempt_def example_world_def)
  have old': "timestamp old_attempt < 1700000000000 - 7 * 24 * 60 * 60 * 1000"
    by (simp add: old_attempt_def)
  have mem: "old_attempt \<in> set [old_attempt]"
    by simp
  note th = generateQuestions_keeps_seven_days [OF example_run_old,
      of "[old_attempt]" 1700000000000 "''asha@example.org''"]
  from th have "\<forall>a \<in> set [example_attempt].
         now_prune example_world - 7 * 24 * 60 * 60 * 1000 \<le> timestamp a"
    by blast
  then have "now_prune example_world - 7 * 24 * 60 * 60 * 1000 \<le> timestamp example_attempt"
    by simp
  moreover from th mem old'
  have "old_attempt \<notin> set (recentAttempts [old_attempt] ''asha@example.org'' 1700000000000)"
    by blast
  ultimately show ?thesis
    using example_run_old old by blast
qed

section \<open>Resetting the history of a student\<close>

lemma filter_other_student:
  "e' \<noteq> e \<Longrightarrow>
     filter (\<lambda>a. userEmail a = e') (filter (\<lambda>a. userEmail a \<noteq> e) st)
       = filter (\<lambda>a. userEmail a = e') st"
  by (induction st) auto

text \<open>
  C8. For a student identifier (a non-empty email) and any contents of the store,
  \<open>resetQuestionPool\<close> answers ok, leaves no attempt of that student in the store, and
  leaves the attempts of all other students as they were, in the same order.
\<close>

theorem resetQuestionPool_removes_only_that_student:
  assumes "e \<noteq> []"
  shows "fst (resetQuestionPool st (Some e))
         \<and> (\<forall>a \<in> set (snd (resetQuestionPool st (Some e))). userEmail a \<noteq> e)
         \<and> filter (\<lambda>a. userEmail a \<noteq> e) (snd (resetQuestionPool st (Some e)))
             = filter (\<lambda>a. userEmail a \<noteq> e) st
         \<and> (\<forall>e'. e' \<noteq> e \<longrightarrow>
               filter (\<lambda>a. userEmail a = e') (snd (resetQuestionPool st (Some e)))
                 = filter (\<lambda>a. userEmail a = e') st)"
proof -
  have r: "resetQuestionPool st (Some e) = (True, filter (\<lambda>a. userEmail a \<noteq> e) st)"
    using assms by (simp add: resetQuestionPool_def truthy_def)
  have 1: "fst (resetQuestionPool st (Some e))"
    by (simp add: r)
  have 2: "\<forall>a \<in> set (snd (resetQuestionPool st (Some e))). userEmail a \<noteq> e"
    by (simp add: r)
  have 3: "filter (\<lambda>a. userEmail a \<noteq> e) (snd (resetQuestionPool st (Some e)))
             = filter (\<lambda>a. userEmail a \<noteq> e) st"
    by (simp add: r)
  have 4: "\<forall>e'. e' \<noteq> e \<longrightarrow>
               filter (\<lambda>a. userEmail a = e') (snd (resetQuestionPool st (Some e)))
                 = filter (\<lambda>a. userEmail a = e') st"
    unfolding r snd_conv using filter_other_student by blast
  from 1 2 3 4 show ?thesis
    by (intro conjI)
qed

theorem resetQuestionPool_removes_only_that_student_witness:
  "''asha@example.org'' \<noteq> []
   \<and> resetQuestionPool [old_attempt, other_attempt, example_attempt] (Some ''asha@example.org'')
       = (True, [other_attempt])
   \<and> filter (\<lambda>a. userEmail a \<noteq> ''asha@example.org'')
        (snd (resetQuestionPool [old_attempt, other_attempt, example_attempt]
               (Some ''asha@example.org'')))
       = filter (\<lambda>a. userEmail a \<noteq> ''asha@example.org'')
           [old_attempt, other_attempt, example_attempt]"
proof -
  have a: "''asha@example.org'' \<noteq> []"
    by simp
  have b: "resetQuestionPool [old_attempt, other_attempt, example_attempt]
             (Some ''asha@example.org'') = (True, [other_attempt])"
    by code_simp
  note th = resetQuestionPool_removes_only_that_student [OF a,
      of "[old_attempt, other_attempt, example_attempt]"]
  show ?thesis
    by (intro conjI) (rule a, rule b,
      rule th [THEN conjunct2, THEN conjunct2, THEN conjunct1])
qed

text \<open>
  C9. A successful quiz request appends exactly one attempt to the store, after the
  attempts that survive the clean-up: it belongs to the requesting student, carries the
  timestamp of the request, and its question ids are the ids of the returned questions,
  quantitative first, then logical, then verbal. The two clock readings of the request
  are taken in the same synchronous block, so the new attempt is not older than seven days
  at the clean-up.
\<close>

theorem generateQuestions_records_shown_ids:
  assumes "generateQuestions w st cl email = (Ok200 r, st')"
    and "now_prune w - 7 * 24 * 60 * 60 * 1000 \<le> now_record w"
  shows "\<exists>e. email = Some e \<and> e \<noteq> []
           \<and> st' = filter (\<lambda>a. now_prune w - 7 * 24 * 60 * 60 * 1000 \<le> timestamp a) st
                   @ [\<lparr>userEmail = e, classLevel = cl,
                       questionIds = map id_q (quantitative r) @ map id_q (logical r)
                                     @ map id_q (verbal r),
                       timestamp = now_record w\<rparr>]"
proof -
  from generateQuestions_Ok [OF assms(1)]
  have t: "truthy email"
    and s: "st' = filter (\<lambda>a. timestamp a \<ge> now_prune w - 7 * 24 * 60 * 60 * 1000)
              (st @ [\<lparr>userEmail = the email, classLevel = cl,
                      questionIds = map id_q (quantitative r) @ map id_q (logical r)
                                    @ map id_q (verbal r),
                      timestamp = now_record w\<rparr>])"
    by blast+
  from t obtain e where e: "email = Some e" "e \<noteq> []"
    by (auto simp: truthy_def split: option.splits)
  show ?thesis
    using s e assms(2) by simp
qed

theorem generateQuestions_records_shown_ids_witness:
  "generateQuestions example_world [old_attempt, other_attempt] (Some ''10th'')
       (Some ''asha@example.org'')
     = (Ok200 example_response, [other_attempt, example_attempt])
   \<and> now_prune example_world - 7 * 24 * 60 * 60 * 1000 \<le> now_record example_world
   \<and> (\<exists>e. Some ''asha@example.org'' = Some e \<and> e \<noteq> []
         \<and> [other_attempt, example_attempt]
             = filter (\<lambda>a. now_prune example_world - 7 * 24 * 60 * 60 * 1000 \<le> timestamp a)
                 [old_attempt, other_attempt]
               @ [\<lparr>userEmail = e, classLevel = Some ''10th'',
                   questionIds = map id_q (quantitative example_response)
                                 @ map id_q (logical example_response)
                                 @ map id_q (verbal example_response),
                   timestamp = now_record example_world\<rparr>])"
proof -
  have a: "generateQuestions example_world [old_attempt, other_attempt] (Some ''10th'')
       (Some ''asha@example.org'')
     = (Ok200 example_response, [other_attempt, example_attempt])"
    by code_simp
  have b: "now_prune example_world - 7 * 24 * 60 * 60 * 1000 \<le> now_record example_world"
    by (simp add: example_world_def)
  from generateQuestions_records_shown_ids [OF a b] a b show ?thesis
    by blast
qed

section \<open>Fallback of the question source\<close>

lemma call_gemini_unavailable:
  assumes "fetch env lv = FetchThrows
     \<or> (\<exists>body. fetch env lv = HttpResponse False body)
     \<or> fetch env lv = HttpResponse True BodyNotJson
     \<or> (\<exists>t1 t2. fetch env lv = HttpResponse True (Data t1 t2) \<and> \<not> truthy (or_else t1 t2))
     \<or> (\<exists>t1 t2 text. fetch env lv = HttpResponse True (Data t1 t2)
           \<and> or_else t1 t2 = Some text
           \<and> (JSON_parse env (trim (strip_fences text)) = ParseThrows
                \<or> JSON_parse env (trim (strip_fences text)) = ParsedNull
                \<or> (\<exists>parsed. JSON_parse env (trim (strip_fences text)) = Parsed parsed
                      \<and> (quantitative parsed = Falsy \<or> logical parsed = Falsy
                           \<or> verbal parsed = Falsy))))"
  shows "call_gemini env lv = Inr fallbackQuestions \<or> (\<exists>err. call_gemini env lv = Inl err)"
  using assms
proof (elim disjE exE conjE)
  assume "fetch env lv = FetchThrows"
  then show ?thesis by (simp add: call_gemini_def)
next
  fix body assume "fetch env lv = HttpResponse False body"
  then show ?thesis by (simp add: call_gemini_def)
next
  assume "fetch env lv = HttpResponse True BodyNotJson"
  then show ?thesis by (simp add: call_gemini_def)
next
  fix t1 t2 assume "fetch env lv = HttpResponse True (Data t1 t2)" "\<not> truthy (or_else t1 t2)"
  then show ?thesis
    by (cases "or_else t1 t2") (simp_all add: call_gemini_def truthy_def)
next
  fix t1 t2 reply
  assume "fetch env lv = HttpResponse True (Data t1 t2)" "or_else t1 t2 = Some reply"
    "JSON_parse env (trim (strip_fences reply)) = ParseThrows"
  then show ?thesis by (simp add: call_gemini_def)
next
  fix t1 t2 reply
  assume "fetch env lv = HttpResponse True (Data t1 t2)" "or_else t1 t2 = Some reply"
    "JSON_parse env (trim (strip_fences reply)) = ParsedNull"
  then show ?thesis by (simp add: call_gemini_def)
next
  fix t1 t2 reply parsed
  assume "fetch env lv = HttpResponse True (Data t1 t2)" "or_else t1 t2 = Some reply"
    "JSON_parse env (trim (strip_fences reply)) = Parsed parsed"
    "quantitative parsed = Falsy"
  then show ?thesis by (simp add: call_gemini_def)
next
  fix t1 t2 reply parsed
  assume "fetch env lv = HttpResponse True (Data t1 t2)" "or_else t1 t2 = Some reply"
    "JSON_parse env (trim (strip_fences reply)) = Parsed parsed"
    "logical parsed = Falsy"
  then show ?thesis by (simp add: call_gemini_def)
next
  fix t1 t2 reply parsed
  assume "fetch env lv = HttpResponse True (Data t1 t2)" "or_else t1 t2 = Some reply"
    "JSON_parse env (trim (strip_fences reply)) = Parsed parsed"
    "verbal parsed = Falsy"
  then show ?thesis by (simp add: call_gemini_def)
qed

lemma fallback_request_succeeds:
  assumes "generateAptitudeQuestions (gemini w) (level_or_other class_level) = fallbackQuestions"
    and "truthy email"
  shows "\<exists>r st'. generateQuestions w st class_level email = (Ok200 r, st')
           \<and> length (quantitative r) = 10 \<and> length (logical r) = 10
           \<and> length (verbal r) = 10"
proof -
  let ?used = "usedQuestionIds st (the email) (now_lookup w)"
  have bank: "quantitative (generateAptitudeQuestions (gemini w) (level_or_other class_level))
                = Questions fallback_quantitative"
    "logical (generateAptitudeQuestions (gemini w) (level_or_other class_level))
                = Questions fallback_logical"
    "verbal (generateAptitudeQuestions (gemini w) (level_or_other class_level))
                = Questions fallback_verbal"
    by (simp_all add: assms(1) fallbackQuestions_def)
  obtain q1 k1 where p1: "processSection (random w) (next_draw w)
      (Questions fallback_quantitative) ?used = Inr (q1, k1)"
    using processSection_total by blast
  obtain l1 k2 where p2: "processSection (random w) k1 (Questions fallback_logical) ?used
      = Inr (l1, k2)"
    using processSection_total by blast
  obtain v1 k3 where p3: "processSection (random w) k2 (Questions fallback_verbal) ?used
      = Inr (v1, k3)"
    using processSection_total by blast
  have len: "length q1 = 10" "length l1 = 10" "length v1 = 10"
    using processSection_ten [OF _ p1] processSection_ten [OF _ p2] processSection_ten [OF _ p3]
    by (simp_all add: fallback_lengths)
  have "generateQuestions w st class_level email =
           (Ok200 \<lparr>quantitative = q1, logical = l1, verbal = v1\<rparr>,
            filter (\<lambda>a. timestamp a \<ge> now_prune w - 7 * 24 * 60 * 60 * 1000)
              (st @ [\<lparr>userEmail = the email, classLevel = class_level,
                      questionIds = map id_q q1 @ map id_q l1 @ map id_q v1,
                      timestamp = now_record w\<rparr>]))"
    using generateQuestions_success [OF assms(2), of w class_level st q1 k1 l1 k2 v1 k3]
      p1 p2 p3
    by (simp only: bank)
  with len show ?thesis by simp
qed

text \<open>
  C6. When the question source is unavailable (no API key, the HTTP call throws or answers
  with an error status, the body is not JSON, the reply text is missing or empty, the text
  does not parse or parses to null, or one of the three sections is missing), the
  operation returns the built-in fallback set; a request that carries an email is then
  answered successfully with ten questions per section.
\<close>

theorem generateAptitudeQuestions_falls_back:
  assumes "\<not> truthy (GEMINI_API_KEY env)
     \<or> fetch env (level_of cl) = FetchThrows
     \<or> (\<exists>body. fetch env (level_of cl) = HttpResponse False body)
     \<or> fetch env (level_of cl) = HttpResponse True BodyNotJson
     \<or> (\<exists>t1 t2. fetch env (level_of cl) = HttpResponse True (Data t1 t2)
           \<and> \<not> truthy (or_else t1 t2))
     \<or> (\<exists>t1 t2 text. fetch env (level_of cl) = HttpResponse True (Data t1 t2)
           \<and> or_else t1 t2 = Some text
           \<and> (JSON_parse env (trim (strip_fences text)) = ParseThrows
                \<or> JSON_parse env (trim (strip_fences text)) = ParsedNull
                \<or> (\<exists>parsed. JSON_parse env (trim (strip_fences text)) = Parsed parsed
                      \<and> (quantitative parsed = Falsy \<or> logical parsed = Falsy
                           \<or> verbal parsed = Falsy))))"
  shows "generateAptitudeQuestions env cl = fallbackQuestions
         \<and> (gemini w = env \<and> level_or_other class_level = cl \<and> truthy email \<longrightarrow>
              (\<exists>r st'. generateQuestions w st class_level email = (Ok200 r, st')
                 \<and> length (quantitative r) = 10 \<and> length (logical r) = 10
                 \<and> length (verbal r) = 10))"
proof -
  have fb: "generateAptitudeQuestions env cl = fallbackQuestions"
  proof (cases "truthy (GEMINI_API_KEY env)")
    case False
    then show ?thesis by (simp add: generateAptitudeQuestions_def)
  next
    case True
    with assms have "call_gemini env (level_of cl) = Inr fallbackQuestions
        \<or> (\<exists>err. call_gemini env (level_of cl) = Inl err)"
      by (intro call_gemini_unavailable) blast
    then show ?thesis
      using True by (auto simp: generateAptitudeQuestions_def)
  qed
  moreover have "\<exists>r st'. generateQuestions w st class_level email = (Ok200 r, st')
                 \<and> length (quantitative r) = 10 \<and> length (logical r) = 10
                 \<and> length (verbal r) = 10"
    if "gemini w = env" "level_or_other class_level = cl" "truthy email"
    using fallback_request_succeeds [of w class_level email st] fb that by simp
  ultimately show ?thesis by blast
qed

theorem generateAptitudeQuestions_falls_back_witness:
  "\<not> truthy (GEMINI_API_KEY offline_env)
   \<and> generateAptitudeQuestions offline_env ''10th'' = fallbackQuestions
   \<and> (\<exists>r st'. generateQuestions offline_world [] (Some ''10th'') (Some ''asha@example.org'')
                   = (Ok200 r, st')
          \<and> length (quantitative r) = 10 \<and> length (logical r) = 10
          \<and> length (verbal r) = 10)
   \<and> fetch (example_env\<lparr>fetch := \<lambda>lv. HttpResponse False BodyNotJson\<rparr>) (level_of ''12th'')
       = HttpResponse False BodyNotJson
   \<and> generateAptitudeQuestions
         (example_env\<lparr>fetch := \<lambda>lv. HttpResponse False BodyNotJson\<rparr>) ''12th''
       = fallbackQuestions"
proof -
  have a: "\<not> truthy (GEMINI_API_KEY offline_env)"
    by (simp add: offline_env_def truthy_def)
  have g: "gemini offline_world = offline_env"
    by (simp add: offline_world_def)
  have l: "level_or_other (Some ''10th'') = ''10th''"
    by (simp add: level_or_other_def truthy_def)
  have e: "truthy (Some ''asha@example.org'')"
    by (simp add: truthy_def)
  have b: "fetch (example_env\<lparr>fetch := \<lambda>lv. HttpResponse False BodyNotJson\<rparr>)
             (level_of ''12th'') = HttpResponse False BodyNotJson"
    by simp
  note first = generateAptitudeQuestions_falls_back
    [of offline_env "''10th''" offline_world "Some ''10th''" "Some ''asha@example.org''" "[]"]
  note second = generateAptitudeQuestions_falls_back
    [of "example_env\<lparr>fetch := \<lambda>lv. HttpResponse False BodyNotJson\<rparr>" "''12th''"]
  have "generateAptitudeQuestions offline_env ''10th'' = fallbackQuestions"
    using first a by blast
  moreover have "\<exists>r st'. generateQuestions offline_world [] (Some ''10th'')
                   (Some ''asha@example.org'') = (Ok200 r, st')
          \<and> length (quantitative r) = 10 \<and> length (logical r) = 10
          \<and> length (verbal r) = 10"
    using first a g l e by blast
  moreover have "generateAptitudeQuestions
         (example_env\<lparr>fetch := \<lambda>lv. HttpResponse False BodyNotJson\<rparr>) ''12th''
       = fallbackQuestions"
    using second b by blast
  ultimately show ?thesis
    using a b by blast
qed

section \<open>The composite score\<close>

text \<open>
  C2. The composite score is ten times the blend of the three sub-scores with the weights
  0.6, 0.2 and 0.2; for similarity 1, aptitude 0 and interest 0 it is 6.
\<close>

theorem composite_weighted_blend:
  "composite similarity aptitude interest
     = 10 * (6 / 10 * similarity + 2 / 10 * aptitude + 2 / 10 * interest)
   \<and> composite 1 0 0 = 6"
  by (simp add: composite_def blend_def default_weights_def)

section \<open>Two requests of the same student\<close>






lemma generateQuestions_arrays:
  assumes "truthy email"
    and "generateAptitudeQuestions (gemini w) (level_or_other cl)
           = \<lparr>quantitative = Questions qs, logical = Questions ls, verbal = Questions vs\<rparr>"
  shows "\<exists>r st' k1 k2 k3. generateQuestions w st cl email = (Ok200 r, st')
           \<and> processSection (random w) (next_draw w) (Questions qs)
                 (usedQuestionIds st (the email) (now_lookup w)) = Inr (quantitative r, k1)
           \<and> processSection (random w) k1 (Questions ls)
                 (usedQuestionIds st (the email) (now_lookup w)) = Inr (logical r, k2)
           \<and> processSection (random w) k2 (Questions vs)
                 (usedQuestionIds st (the email) (now_lookup w)) = Inr (verbal r, k3)"
proof -
  let ?used = "usedQuestionIds st (the email) (now_lookup w)"
  obtain q1 k1 where p1: "processSection (random w) (next_draw w) (Questions qs) ?used = Inr (q1, k1)"
    using processSection_total by blast
  obtain l1 k2 where p2: "processSection (random w) k1 (Questions ls) ?used = Inr (l1, k2)"
    using processSection_total by blast
  obtain v1 k3 where p3: "processSection (random w) k2 (Questions vs) ?used = Inr (v1, k3)"
    using processSection_total by blast
  let ?r = "\<lparr>quantitative = q1, logical = l1, verbal = v1\<rparr>"
  obtain st' where run: "generateQuestions w st cl email = (Ok200 ?r, st')"
    using generateQuestions_success [of email w cl st q1 k1 l1 k2 v1 k3] assms p1 p2 p3
    by simp
  have "processSection (random w) (next_draw w) (Questions qs) ?used = Inr (quantitative ?r, k1)"
    "processSection (random w) k1 (Questions ls) ?used = Inr (logical ?r, k2)"
    "processSection (random w) k2 (Questions vs) ?used = Inr (verbal ?r, k3)"
    using p1 p2 p3 by simp_all
  with run show ?thesis by blast
qed

lemma generateQuestions_Ok_arrays:
  assumes "generateQuestions w st cl email = (Ok200 r, st')"
    and "generateAptitudeQuestions (gemini w) (level_or_other cl)
           = \<lparr>quantitative = Questions qs, logical = Questions ls, verbal = Questions vs\<rparr>"
  shows "\<exists>k1 k2 k3.
           processSection (random w) (next_draw w) (Questions qs)
                 (usedQuestionIds st (the email) (now_lookup w)) = Inr (quantitative r, k1)
           \<and> processSection (random w) k1 (Questions ls)
                 (usedQuestionIds st (the email) (now_lookup w)) = Inr (logical r, k2)
           \<and> processSection (random w) k2 (Questions vs)
                 (usedQuestionIds st (the email) (now_lookup w)) = Inr (verbal r, k3)"
  using generateQuestions_Ok [OF assms(1)] by (simp add: assms(2))

section \<open>The handler with its suspension\<close>






section \<open>The example question sources\<close>

lemma strip_fences_without_backtick:
  assumes "CHR 0x60 \<notin> set s"
  shows "strip_fences s = s"
  using assms
proof (induction s)
  case Nil
  show ?case by (simp add: strip_fences.simps)
next
  case (Cons c s)
  have c: "c \<noteq> CHR 0x60" using Cons.prems by auto
  have "take 7 (c # s) \<noteq> fence_json"
    using c by (auto simp: fence_json_def)
  moreover have "take 3 (c # s) \<noteq> fence"
    using c by (auto simp: fence_def)
  moreover have "strip_fences s = s"
    using Cons by simp
  ultimately show ?case
    by (simp add: strip_fences.simps [of "c # s"])
qed

lemma trim_without_outer_space:
  assumes "s \<noteq> []" "\<not> is_space (hd s)" "\<not> is_space (last s)"
  shows "trim s = s"
proof -
  have 1: "dropWhile is_space s = s"
    using assms(2) by (simp add: dropWhile_eq_self_iff)
  have "hd (rev s) = last s"
    using assms(1) by (simp add: hd_rev)
  then have 2: "dropWhile is_space (rev s) = rev s"
    using assms(3) by (simp add: dropWhile_eq_self_iff)
  show ?thesis
    by (simp add: trim_def 1 2)
qed

lemma json_parts_without_backtick:
  "CHR 0x60 \<notin> set wide_json_head" "CHR 0x60 \<notin> set wide_json_tail"
  by (simp_all add: wide_json_head_def wide_json_tail_def)

lemma json_head_start: "wide_json_head \<noteq> []" "\<not> is_space (hd wide_json_head)"
  by (simp_all add: wide_json_head_def is_space_def)

lemma json_tail_end: "wide_json_tail \<noteq> []" "\<not> is_space (last wide_json_tail)"
  by (simp_all add: wide_json_tail_def is_space_def)

lemma json_clean:
  assumes "CHR 0x60 \<notin> set mid"
  shows "trim (strip_fences (wide_json_head @ mid @ wide_json_tail))
           = wide_json_head @ mid @ wide_json_tail"
proof -
  let ?s = "wide_json_head @ mid @ wide_json_tail"
  have "CHR 0x60 \<notin> set ?s"
    using assms json_parts_without_backtick by simp
  then have 1: "strip_fences ?s = ?s"
    by (rule strip_fences_without_backtick)
  have "hd ?s = hd wide_json_head" "last ?s = last wide_json_tail" "?s \<noteq> []"
    using json_head_start(1) json_tail_end(1) by simp_all
  then have "trim ?s = ?s"
    using json_head_start(2) json_tail_end(2) by (intro trim_without_outer_space) simp_all
  with 1 show ?thesis by simp
qed

lemma wide_json_clean: "trim (strip_fences wide_json) = wide_json"
  unfolding wide_json_def by (rule json_clean) simp

lemma clash_json_clean: "trim (strip_fences clash_json) = clash_json"
  unfolding clash_json_def by (rule json_clean) simp

lemma broken_json_clean: "trim (strip_fences broken_json) = broken_json"
  by code_simp

lemma json_texts_differ:
  "clash_json \<noteq> wide_json" "broken_json \<noteq> wide_json" "broken_json \<noteq> clash_json"
  by (simp_all add: clash_json_def wide_json_def broken_json_def wide_json_head_def)

lemma json_texts_nonempty: "wide_json \<noteq> []" "clash_json \<noteq> []" "broken_json \<noteq> []"
  using json_head_start(1) by (simp_all add: wide_json_def clash_json_def broken_json_def)

lemma wide_source:
  "generateAptitudeQuestions wide_env (level_or_other (Some ''10th''))
     = \<lparr>quantitative = Questions wide_quantitative,
        logical = Questions [example_question\<lparr>id_q := ''y1''\<rparr>],
        verbal = Questions [example_question\<lparr>id_q := ''z1''\<rparr>]\<rparr>"
proof -
  have "call_gemini wide_env (level_of (level_or_other (Some ''10th''))) = Inr wide_bank"
    using json_texts_nonempty(1)
    by (simp add: call_gemini_def wide_env_def or_else_def truthy_def wide_json_clean
          wide_parse_def wide_bank_def example_bank_def)
  then show ?thesis
    by (simp add: generateAptitudeQuestions_def wide_env_def truthy_def wide_bank_def
          example_bank_def)
qed

lemma clash_source:
  "generateAptitudeQuestions clash_env (level_or_other (Some ''10th''))
     = \<lparr>quantitative = Questions wide_quantitative,
        logical = Questions [example_question\<lparr>id_q := ''n1''\<rparr>],
        verbal = Questions [example_question\<lparr>id_q := ''z1''\<rparr>]\<rparr>"
proof -
  have "call_gemini clash_env (level_of (level_or_other (Some ''10th''))) = Inr clash_bank"
    using json_texts_nonempty(2) json_texts_differ(1)
    by (simp add: call_gemini_def clash_env_def wide_env_def or_else_def truthy_def
          clash_json_clean wide_parse_def clash_bank_def wide_bank_def example_bank_def)
  then show ?thesis
    by (simp add: generateAptitudeQuestions_def clash_env_def wide_env_def truthy_def
          clash_bank_def wide_bank_def example_bank_def)
qed

lemma broken_source:
  "generateAptitudeQuestions broken_env (level_or_other (Some ''10th''))
     = \<lparr>quantitative = NotAnArray, logical = NotAnArray, verbal = NotAnArray\<rparr>"
proof -
  have "call_gemini broken_env (level_of (level_or_other (Some ''10th'')))
          = Inr \<lparr>quantitative = NotAnArray, logical = NotAnArray, verbal = NotAnArray\<rparr>"
    using json_texts_nonempty(3) json_texts_differ(2,3)
    by (simp add: call_gemini_def broken_env_def wide_env_def or_else_def truthy_def
          broken_json_clean wide_parse_def)
  then show ?thesis
    by (simp add: generateAptitudeQuestions_def broken_env_def wide_env_def truthy_def)
qed

lemma example_sources:
  "generateAptitudeQuestions (gemini wide_world) (level_or_other (Some ''10th''))
     = \<lparr>quantitative = Questions wide_quantitative,
        logical = Questions [example_question\<lparr>id_q := ''y1''\<rparr>],
        verbal = Questions [example_question\<lparr>id_q := ''z1''\<rparr>]\<rparr>"
  "generateAptitudeQuestions (gemini later_world) (level_or_other (Some ''10th''))
     = \<lparr>quantitative = Questions wide_quantitative,
        logical = Questions [example_question\<lparr>id_q := ''y1''\<rparr>],
        verbal = Questions [example_question\<lparr>id_q := ''z1''\<rparr>]\<rparr>"
  "generateAptitudeQuestions (gemini third_world) (level_or_other (Some ''10th''))
     = \<lparr>quantitative = Questions wide_quantitative,
        logical = Questions [example_question\<lparr>id_q := ''y1''\<rparr>],
        verbal = Questions [example_question\<lparr>id_q := ''z1''\<rparr>]\<rparr>"
  "generateAptitudeQuestions (gemini overlapping_world) (level_or_other (Some ''10th''))
     = \<lparr>quantitative = Questions wide_quantitative,
        logical = Questions [example_question\<lparr>id_q := ''y1''\<rparr>],
        verbal = Questions [example_question\<lparr>id_q := ''z1''\<rparr>]\<rparr>"
  "generateAptitudeQuestions (gemini clash_world) (level_or_other (Some ''10th''))
     = \<lparr>quantitative = Questions wide_quantitative,
        logical = Questions [example_question\<lparr>id_q := ''n1''\<rparr>],
        verbal = Questions [example_question\<lparr>id_q := ''z1''\<rparr>]\<rparr>"
  "generateAptitudeQuestions (gemini clash_later_world) (level_or_other (Some ''10th''))
     = \<lparr>quantitative = Questions wide_quantitative,
        logical = Questions [example_question\<lparr>id_q := ''n1''\<rparr>],
        verbal = Questions [example_question\<lparr>id_q := ''z1''\<rparr>]\<rparr>"
  "generateAptitudeQuestions (gemini broken_world) (level_or_other (Some ''10th''))
     = \<lparr>quantitative = NotAnArray, logical = NotAnArray, verbal = NotAnArray\<rparr>"
  using wide_source clash_source broken_source
  by (simp_all add: wide_world_def later_world_def third_world_def overlapping_world_def
        clash_world_def clash_later_world_def broken_world_def)


















section \<open>The size of the response\<close>

lemma shuffle_options_same_answer:
  assumes "valid_rng rnd"
  shows "element_at (options (fst (shuffle_options rnd k q)))
           (answerIndex (fst (shuffle_options rnd k q)))
         = element_at (options q) (answerIndex q)"
proof (cases "0 \<le> answerIndex q \<and> answerIndex q < int (length (options q))")
  case True
  then show ?thesis
    using shuffle_options_answer [OF assms, of q k] by (simp add: element_at_def)
next
  case False
  then have none: "element_at (options q) (answerIndex q) = None"
    by (auto simp: element_at_def)
  then have "answerIndex (fst (shuffle_options rnd k q)) = - 1"
    by (simp add: shuffle_options_def indexOf_def split: prod.splits)
  then have "element_at (options (fst (shuffle_options rnd k q)))
               (answerIndex (fst (shuffle_options rnd k q))) = None"
    by (simp add: element_at_def)
  with none show ?thesis by simp
qed

lemma returned_question_same_answer:
  assumes "valid_rng rnd"
    and "processSection rnd k (Questions qs) usedIds = Inr (result, k')"
    and "q' \<in> set result"
  shows "\<exists>q \<in> set qs.
           id_q q' = id_q q \<and> question q' = question q
           \<and> mset (options q') = mset (options q)
           \<and> element_at (options q') (answerIndex q') = element_at (options q) (answerIndex q)"
proof -
  from processSection_origin [OF assms(2,3)]
  obtain q k0 where q: "q \<in> set (selected rnd k qs usedIds)"
    and q': "q' = fst (shuffle_options rnd k0 q)"
    by blast
  have "q \<in> set qs"
    using q selected_subset [OF assms(1)] availableQuestions_subset by blast
  moreover have "id_q q' = id_q q" "question q' = question q"
    using q' by (simp_all add: shuffle_options_fields)
  moreover have "mset (options q') = mset (options q)"
    using q' by (simp add: shuffle_options_fields shuffleArray_mset [OF assms(1)])
  moreover have "element_at (options q') (answerIndex q')
      = element_at (options q) (answerIndex q)"
    unfolding q' by (rule shuffle_options_same_answer [OF assms(1)])
  ultimately show ?thesis by blast
qed

text \<open>
  C5 (as amended). When a request is answered ok and the question source supplied at
  least ten questions in each of its three sections, the response holds exactly ten
  questions per section, thirty in all; each is a question of the corresponding section
  with permuted options, and its options at its answer index are what the options of the
  original were at the original answer index.
\<close>

theorem generateQuestions_thirty_questions:
  assumes "valid_rng (random w)"
    and "generateQuestions w st cl email = (Ok200 r, st')"
    and "generateAptitudeQuestions (gemini w) (level_or_other cl)
           = \<lparr>quantitative = Questions qs, logical = Questions ls, verbal = Questions vs\<rparr>"
    and "10 \<le> length qs" and "10 \<le> length ls" and "10 \<le> length vs"
  shows "length (quantitative r @ logical r @ verbal r) = 30
         \<and> (\<forall>(pool, returned) \<in> {(qs, quantitative r), (ls, logical r), (vs, verbal r)}.
               length returned = 10
               \<and> (\<forall>q' \<in> set returned. \<exists>q \<in> set pool.
                     id_q q' = id_q q \<and> question q' = question q
                     \<and> mset (options q') = mset (options q)
                     \<and> element_at (options q') (answerIndex q')
                          = element_at (options q) (answerIndex q)))"
proof -
  let ?used = "usedQuestionIds st (the email) (now_lookup w)"
  from generateQuestions_Ok_arrays [OF assms(2,3)]
  obtain k1 k2 k3 where
    p1: "processSection (random w) (next_draw w) (Questions qs) ?used = Inr (quantitative r, k1)"
    and p2: "processSection (random w) k1 (Questions ls) ?used = Inr (logical r, k2)"
    and p3: "processSection (random w) k2 (Questions vs) ?used = Inr (verbal r, k3)"
    by blast
  have len: "length (quantitative r) = 10" "length (logical r) = 10" "length (verbal r) = 10"
    using processSection_ten [OF assms(4) p1] processSection_ten [OF assms(5) p2]
      processSection_ten [OF assms(6) p3] by simp_all
  note keep = returned_question_same_answer [OF assms(1)]
  have "\<forall>(pool, returned) \<in> {(qs, quantitative r), (ls, logical r), (vs, verbal r)}.
          length returned = 10
          \<and> (\<forall>q' \<in> set returned. \<exists>q \<in> set pool.
                id_q q' = id_q q \<and> question q' = question q
                \<and> mset (options q') = mset (options q)
                \<and> element_at (options q') (answerIndex q')
                          = element_at (options q) (answerIndex q))"
    using len keep [OF p1] keep [OF p2] keep [OF p3] by simp
  moreover have "length (quantitative r @ logical r @ verbal r) = 30"
    using len by simp
  ultimately show ?thesis by blast
qed

theorem generateQuestions_thirty_questions_witness:
  "valid_rng (random offline_world)
   \<and> 10 \<le> length fallback_quantitative \<and> 10 \<le> length fallback_logical
   \<and> 10 \<le> length fallback_verbal
   \<and> (\<exists>r st'. generateQuestions offline_world [] (Some ''10th'') (Some ''asha@example.org'')
                   = (Ok200 r, st')
          \<and> length (quantitative r @ logical r @ verbal r) = 30
          \<and> (\<forall>(pool, returned) \<in> {(fallback_quantitative, quantitative r),
                                     (fallback_logical, logical r),
                                     (fallback_verbal, verbal r)}.
                length returned = 10
                \<and> (\<forall>q' \<in> set returned. \<exists>q \<in> set pool.
                      id_q q' = id_q q \<and> question q' = question q
                      \<and> mset (options q') = mset (options q)
                      \<and> element_at (options q') (answerIndex q')
                          = element_at (options q) (answerIndex q))))"
proof -
  have a: "valid_rng (random offline_world)"
    by (rule valid_example_world)
  have b: "truthy (Some ''asha@example.org'')"
    by (simp add: truthy_def)
  have c: "10 \<le> length fallback_quantitative" "10 \<le> length fallback_logical"
    "10 \<le> length fallback_verbal"
    by (simp_all add: fallback_lengths)
  obtain r st' where run: "generateQuestions offline_world [] (Some ''10th'')
      (Some ''asha@example.org'') = (Ok200 r, st')"
    using generateQuestions_arrays [OF b offline_bank, of "[]"] by blast
  from generateQuestions_thirty_questions [OF a run offline_bank c] run a c
  show ?thesis by blast
qed

section \<open>Requests that are answered 400 or 500\<close>

text \<open>
  The claim C7 as stated fails: a request without email is answered 400 and a request
  whose question source supplies sections that are not arrays is answered 500; both
  complete and leave in the store an attempt that is more than seven days old.
\<close>

theorem generateQuestions_keeps_seven_days_counterexample:
  "generateQuestions example_world [old_attempt] (Some ''10th'') None
     = (Status400, [old_attempt])
   \<and> generateQuestions broken_world [old_attempt] (Some ''10th'') (Some ''asha@example.org'')
     = (Status500, [old_attempt])
   \<and> timestamp old_attempt < now_prune example_world - 7 * 24 * 60 * 60 * 1000
   \<and> timestamp old_attempt < now_prune broken_world - 7 * 24 * 60 * 60 * 1000"
proof -
  have "generateQuestions example_world [old_attempt] (Some ''10th'') None
     = (Status400, [old_attempt])"
    by (simp add: generateQuestions_no_email truthy_def)
  moreover have "generateQuestions broken_world [old_attempt] (Some ''10th'')
      (Some ''asha@example.org'') = (Status500, [old_attempt])"
    unfolding generateQuestions_def example_sources
    by (simp add: truthy_def processSection_def)
  moreover have "timestamp old_attempt < now_prune example_world - 7 * 24 * 60 * 60 * 1000"
    "timestamp old_attempt < now_prune broken_world - 7 * 24 * 60 * 60 * 1000"
    by (simp_all add: old_attempt_def example_world_def broken_world_def)
  ultimately show ?thesis by (intro conjI)
qed

end
